theory Spec2Isabelle
  imports Complex_Main "HOL-Library.Multiset"
begin

section \<open>Data model (models/command.py)\<close>

text \<open>
  \<open>IntentType\<close> is the string-valued enumeration of \<open>models/command.py\<close>, in its
  declaration order. \<open>intent_value\<close> is the \<open>.value\<close> of a member.
\<close>

datatype IntentType =
    CREATE_TASK | UPDATE_TASK | DELETE_TASK | LIST_TASKS | SEARCH_TASKS
  | FILTER_TASKS | COMPLETE_TASK | GET_USER_INFO | UNKNOWN

definition all_intents :: "IntentType list" where
  "all_intents = [CREATE_TASK, UPDATE_TASK, DELETE_TASK, LIST_TASKS, SEARCH_TASKS,
                  FILTER_TASKS, COMPLETE_TASK, GET_USER_INFO, UNKNOWN]"

fun intent_value :: "IntentType \<Rightarrow> string" where
  "intent_value CREATE_TASK = ''CREATE_TASK''"
| "intent_value UPDATE_TASK = ''UPDATE_TASK''"
| "intent_value DELETE_TASK = ''DELETE_TASK''"
| "intent_value LIST_TASKS = ''LIST_TASKS''"
| "intent_value SEARCH_TASKS = ''SEARCH_TASKS''"
| "intent_value FILTER_TASKS = ''FILTER_TASKS''"
| "intent_value COMPLETE_TASK = ''COMPLETE_TASK''"
| "intent_value GET_USER_INFO = ''GET_USER_INFO''"
| "intent_value UNKNOWN = ''UNKNOWN''"

text \<open>
  A \<open>Dict[str, str]\<close> is an association list in insertion order with one entry for each
  key: \<open>dict_lookup\<close> is \<open>d.get(k)\<close>, \<open>dict_get\<close> is \<open>d.get(k, default)\<close>, and
  \<open>dict_set\<close> is \<open>d[k] = v\<close>, which overwrites in place or appends.
\<close>

type_synonym dict = "(string \<times> string) list"

definition dict_lookup :: "dict \<Rightarrow> string \<Rightarrow> string option" where
  "dict_lookup d k = map_of d k"

definition dict_get :: "dict \<Rightarrow> string \<Rightarrow> string \<Rightarrow> string" where
  "dict_get d k dflt = (case map_of d k of Some v \<Rightarrow> v | None \<Rightarrow> dflt)"

fun dict_set :: "dict \<Rightarrow> string \<Rightarrow> string \<Rightarrow> dict" where
  "dict_set [] k v = [(k, v)]"
| "dict_set (p # ps) k v = (if fst p = k then (k, v) # ps else p # dict_set ps k v)"

text \<open>
  \<open>NaturalLanguageCommand\<close>: the confidence is a Python float that the classifier
  computes as a quotient of two small integers; it is kept as an exact rational.
\<close>

record NaturalLanguageCommand =
  raw_input :: string
  intent :: IntentType
  entities :: dict
  confidence :: rat
  user_id :: "string option"
  conversation_id :: "string option"
  timestamp :: "string option"
  suggestions :: "string list option"

record ProcessedCommandResult =
  success :: bool
  result_message :: string
  result_intent :: "IntentType option"
  result_entities :: dict
  task_result :: "dict option"
  user_context :: "dict option"
  result_suggestions :: "string list option"
  follow_up_required :: bool

section \<open>Confirmation service (services/confirmation\_service.py)\<close>

text \<open>
  \<open>datetime.now()\<close> is an input of every operation: a point in time is a number of
  microseconds, a \<open>timedelta\<close> a difference of two. The identifier drawn by
  \<open>uuid.uuid4()\<close> is an input of the constructor.
\<close>

type_synonym datetime = int

definition timedelta_minutes :: "int \<Rightarrow> int" where
  "timedelta_minutes m = m * 60 * 1000000"

datatype ConfirmationType = DESTRUCTIVE_ACTION | ACCOUNT_ACTION | DATA_MODIFICATION

record ConfirmationRequest =
  confirmation_id :: string
  confirmation_type :: ConfirmationType
  message :: string
  original_command :: NaturalLanguageCommand
  action_to_confirm :: string
  created_at :: datetime
  expires_at :: datetime
  is_confirmed :: bool
  is_rejected :: bool

definition ConfirmationRequest_init ::
  "datetime \<Rightarrow> string \<Rightarrow> ConfirmationType \<Rightarrow> string \<Rightarrow> NaturalLanguageCommand \<Rightarrow> string
     \<Rightarrow> int \<Rightarrow> ConfirmationRequest" where
  "ConfirmationRequest_init now uuid4 ctype msg command action expires_in_minutes =
     \<lparr> confirmation_id = uuid4,
       confirmation_type = ctype,
       message = msg,
       original_command = command,
       action_to_confirm = action,
       created_at = now,
       expires_at = now + timedelta_minutes expires_in_minutes,
       is_confirmed = False,
       is_rejected = False \<rparr>"

text \<open>
  Requests are mutable objects that the service and its callers share: \<open>objects\<close> is the
  store of every request ever constructed (a reference is an index into it), and
  \<open>pending_confirmations\<close> is the service's dictionary from identifier to reference.
  Deleting a dictionary entry does not touch the object.
\<close>

record ConfirmationService =
  objects :: "ConfirmationRequest list"
  pending_confirmations :: "string \<rightharpoonup> nat"

definition ConfirmationService_init :: ConfirmationService where
  "ConfirmationService_init = \<lparr> objects = [], pending_confirmations = Map.empty \<rparr>"

definition create_confirmation_request ::
  "ConfirmationService \<Rightarrow> datetime \<Rightarrow> string \<Rightarrow> NaturalLanguageCommand \<Rightarrow> string
     \<Rightarrow> ConfirmationType \<Rightarrow> string option \<Rightarrow> ConfirmationService \<times> nat" where
  "create_confirmation_request svc now uuid4 command action ctype custom_message =
     (let msg = (case custom_message of
                   Some m \<Rightarrow> m
                 | None \<Rightarrow>
                     (if ctype = DESTRUCTIVE_ACTION
                      then ''Are you sure you want to '' @ action @ ''? This action cannot be undone.''
                      else if ctype = ACCOUNT_ACTION
                      then ''You are about to '' @ action @ ''. Confirm this action?''
                      else ''Confirm: '' @ action));
          req = ConfirmationRequest_init now uuid4 ctype msg command action 5;
          ref = length (objects svc)
      in (svc\<lparr> objects := objects svc @ [req],
                pending_confirmations := (pending_confirmations svc)(uuid4 \<mapsto> ref) \<rparr>, ref))"

definition is_expired :: "datetime \<Rightarrow> ConfirmationRequest \<Rightarrow> bool" where
  "is_expired now confirmation \<longleftrightarrow> now > expires_at confirmation"

definition confirm_action :: "ConfirmationService \<Rightarrow> datetime \<Rightarrow> string \<Rightarrow> ConfirmationService \<times> bool" where
  "confirm_action svc now cid =
     (case pending_confirmations svc cid of
        Some ref \<Rightarrow>
          if \<not> is_expired now (objects svc ! ref)
          then (svc\<lparr> objects := (objects svc)[ref := (objects svc ! ref)\<lparr> is_confirmed := True, is_rejected := False \<rparr>] \<rparr>, True)
          else (svc, False)
      | None \<Rightarrow> (svc, False))"

definition reject_action :: "ConfirmationService \<Rightarrow> datetime \<Rightarrow> string \<Rightarrow> ConfirmationService \<times> bool" where
  "reject_action svc now cid =
     (case pending_confirmations svc cid of
        Some ref \<Rightarrow>
          if \<not> is_expired now (objects svc ! ref)
          then (svc\<lparr> objects := (objects svc)[ref := (objects svc ! ref)\<lparr> is_confirmed := False, is_rejected := True \<rparr>],
                      pending_confirmations := (pending_confirmations svc)(cid := None) \<rparr>, True)
          else (svc, False)
      | None \<Rightarrow> (svc, False))"

definition get_confirmation_status ::
  "ConfirmationService \<Rightarrow> datetime \<Rightarrow> string \<Rightarrow> ConfirmationService \<times> nat option" where
  "get_confirmation_status svc now cid =
     (case pending_confirmations svc cid of
        Some ref \<Rightarrow>
          if is_expired now (objects svc ! ref)
          then (svc\<lparr> pending_confirmations := (pending_confirmations svc)(cid := None) \<rparr>, None)
          else (svc, Some ref)
      | None \<Rightarrow> (svc, None))"

definition process_confirmed_action ::
  "ConfirmationService \<Rightarrow> datetime \<Rightarrow> string \<Rightarrow> ConfirmationService \<times> ProcessedCommandResult option" where
  "process_confirmed_action svc now cid =
     (case get_confirmation_status svc now cid of
        (svc', Some ref) \<Rightarrow>
          if is_confirmed (objects svc' ! ref)
          then (let confirmation = objects svc' ! ref;
                    result = \<lparr> success = True,
                               result_message = ''Confirmed and executed: '' @ action_to_confirm confirmation,
                               result_intent = Some (intent (original_command confirmation)),
                               result_entities = entities (original_command confirmation),
                               task_result = None,
                               user_context = None,
                               result_suggestions = Some [''What else can I help you with?''],
                               follow_up_required = False \<rparr>
                in (svc'\<lparr> pending_confirmations := (pending_confirmations svc')(cid := None) \<rparr>, Some result))
          else (svc', None)
      | (svc', None) \<Rightarrow> (svc', None))"

definition cleanup_expired_confirmations :: "ConfirmationService \<Rightarrow> datetime \<Rightarrow> ConfirmationService" where
  "cleanup_expired_confirmations svc now =
     svc\<lparr> pending_confirmations :=
            (\<lambda>cid. case pending_confirmations svc cid of
                      Some ref \<Rightarrow> if now > expires_at (objects svc ! ref) then None else Some ref
                    | None \<Rightarrow> None) \<rparr>"

text \<open>
  Every reference held by the dictionary points into the object store. The constructor
  and all operations keep it so.
\<close>

definition service_wf :: "ConfirmationService \<Rightarrow> bool" where
  "service_wf svc \<longleftrightarrow> (\<forall>cid ref. pending_confirmations svc cid = Some ref \<longrightarrow> ref < length (objects svc))"

text \<open>The operations of the service, as a caller may issue them in any order.\<close>

datatype service_op =
    Create datetime string NaturalLanguageCommand string ConfirmationType "string option"
  | Confirm datetime string
  | Reject datetime string
  | GetStatus datetime string
  | ProcessConfirmed datetime string
  | Cleanup datetime

fun service_step :: "ConfirmationService \<Rightarrow> service_op \<Rightarrow> ConfirmationService" where
  "service_step svc (Create now uuid4 command action ctype custom) =
     fst (create_confirmation_request svc now uuid4 command action ctype custom)"
| "service_step svc (Confirm now cid) = fst (confirm_action svc now cid)"
| "service_step svc (Reject now cid) = fst (reject_action svc now cid)"
| "service_step svc (GetStatus now cid) = fst (get_confirmation_status svc now cid)"
| "service_step svc (ProcessConfirmed now cid) = fst (process_confirmed_action svc now cid)"
| "service_step svc (Cleanup now) = cleanup_expired_confirmations svc now"

definition service_run :: "service_op list \<Rightarrow> ConfirmationService" where
  "service_run ops = foldl service_step ConfirmationService_init ops"

definition flags_exclusive :: "ConfirmationRequest \<Rightarrow> bool" where
  "flags_exclusive r \<longleftrightarrow> \<not> (is_confirmed r \<and> is_rejected r)"

section \<open>Strings\<close>

text \<open>
  Texts are strings of ASCII characters. \<open>lower\<close> is \<open>str.lower()\<close>, \<open>isspace\<close> the
  characters that \<open>str.strip()\<close>, \<open>str.split()\<close> and the regular expression class
  \<open>\s\<close> treat as white space, \<open>in_str p s\<close> the substring test \<open>p in s\<close>.
\<close>

definition lower_char :: "char \<Rightarrow> char" where
  "lower_char c =
     (case map_of (zip ''ABCDEFGHIJKLMNOPQRSTUVWXYZ'' ''abcdefghijklmnopqrstuvwxyz'') c of
        Some l \<Rightarrow> l
      | None \<Rightarrow> c)"

definition lower :: "string \<Rightarrow> string" where
  "lower s = map lower_char s"

definition isspace :: "char \<Rightarrow> bool" where
  "isspace c \<longleftrightarrow>
     c \<in> set [CHR 0x09, CHR 0x0A, CHR 0x0B, CHR 0x0C, CHR 0x0D,
              CHR 0x1C, CHR 0x1D, CHR 0x1E, CHR 0x1F, CHR 0x20]"

definition strip :: "string \<Rightarrow> string" where
  "strip s = rev (dropWhile isspace (rev (dropWhile isspace s)))"

fun startswith :: "string \<Rightarrow> string \<Rightarrow> bool" where
  "startswith s [] = True"
| "startswith [] (p # ps) = False"
| "startswith (c # cs) (p # ps) = (c = p \<and> startswith cs ps)"

fun in_str :: "string \<Rightarrow> string \<Rightarrow> bool" where
  "in_str p [] = (p = [])"
| "in_str p (c # cs) = (startswith (c # cs) p \<or> in_str p cs)"

datatype py_error = UnboundLocalError | KeyError | AttributeError | TypeError

section \<open>Intent classifier (nlp\_intent/classifier.py)\<close>

text \<open>
  The table of \<open>_rule_based_classify\<close>, in the insertion order of the dictionary. A
  pattern counts when it occurs in the text as a substring (\<open>pattern in text_lower\<close>).
\<close>

definition intent_patterns :: "(IntentType \<times> string list) list" where
  "intent_patterns =
     [(CREATE_TASK,
         [''add.*task'', ''create.*task'', ''new.*task'', ''make.*task'', ''add'', ''create'']),
      (UPDATE_TASK,
         [''update.*task'', ''modify.*task'', ''change.*task'', ''update'', ''modify'', ''change'',
          ''edit.*task'', ''edit'', ''update.*title'', ''update.*description'', ''update.*priority'',
          ''change.*title'', ''change.*description'', ''change.*priority'', ''modify.*title'',
          ''modify.*description'', ''modify.*priority'']),
      (DELETE_TASK,
         [''delete.*task'', ''remove.*task'', ''drop.*task'', ''delete'', ''remove'']),
      (LIST_TASKS,
         [''show.*task'', ''list.*task'', ''view.*task'', ''what.*task'', ''all.*task'', ''show'', ''list'']),
      (SEARCH_TASKS,
         [''find.*task'', ''search.*task'', ''look.*for.*task'', ''find'', ''search'']),
      (FILTER_TASKS,
         [''filter.*task'', ''show.*only'', ''only.*task'', ''just.*task'', ''display.*only'',
          ''filtered.*task'', ''filter'']),
      (COMPLETE_TASK,
         [''complete.*task'', ''finish.*task'', ''done.*with.*task'', ''mark.*done'', ''complete'',
          ''finish'', ''done'']),
      (GET_USER_INFO,
         [''who.*am.*i'', ''what.*is.*my.*email'', ''my.*info'', ''user.*info'', ''who.*i.*am'',
          ''my.*name'', ''what.*is.*my.*name'', ''my.*email'', ''what.*is.*my.*email''])]"

definition matched_count :: "string list \<Rightarrow> string \<Rightarrow> nat" where
  "matched_count patterns text_lower = length (filter (\<lambda>pattern. in_str pattern text_lower) patterns)"

definition classify_step :: "string \<Rightarrow> IntentType \<times> nat \<Rightarrow> IntentType \<times> string list \<Rightarrow> IntentType \<times> nat" where
  "classify_step text_lower best entry =
     (let score = matched_count (snd entry) text_lower
      in if score > snd best then (fst entry, score) else best)"

definition rule_based_classify :: "string \<Rightarrow> py_error + (IntentType \<times> rat)" where
  "rule_based_classify text =
     (let text_lower = strip (lower text);
          (best_intent, best_score) = foldl (classify_step text_lower) (UNKNOWN, 0) intent_patterns
      in if best_score > 0
         then (case map_of intent_patterns best_intent of
                 None \<Rightarrow> Inl KeyError
               | Some patterns \<Rightarrow> Inr (best_intent, min (of_nat best_score / of_nat (length patterns)) 1))
         else Inr (best_intent, 0))"

text \<open>
  The external classifier is an input: absent (\<open>cohere_client.client\<close> false), or a
  function that either raises or returns a label.
\<close>

datatype cohere_outcome = Raises | Returns string

definition possible_intents :: "string list" where
  "possible_intents = map intent_value (filter (\<lambda>i. i \<noteq> UNKNOWN) all_intents)"

definition classify_intent ::
  "(string \<Rightarrow> string list \<Rightarrow> cohere_outcome) option \<Rightarrow> string \<Rightarrow> py_error + (IntentType \<times> rat)" where
  "classify_intent client text =
     (case client of
        None \<Rightarrow> rule_based_classify text
      | Some cohere \<Rightarrow>
          (case cohere text possible_intents of
             Raises \<Rightarrow> rule_based_classify text
           | Returns classified_intent \<Rightarrow>
               (case find (\<lambda>intent_type. intent_value intent_type = classified_intent) all_intents of
                  Some intent_type \<Rightarrow> Inr (intent_type, 8 / 10)
                | None \<Rightarrow> rule_based_classify text)))"

text \<open>The two quantities the specification names, read off the table.\<close>

definition patterns_for :: "IntentType \<Rightarrow> string list" where
  "patterns_for i = (case map_of intent_patterns i of Some ps \<Rightarrow> ps | None \<Rightarrow> [])"

definition intent_score :: "IntentType \<Rightarrow> string \<Rightarrow> nat" where
  "intent_score i text = matched_count (patterns_for i) (strip (lower text))"

section \<open>Quality validator (quality\_guard/validator.py)\<close>

text \<open>
  The dictionaries that \<open>validate_task_operation\<close> returns have different keys on
  different paths; an absent key is \<open>None\<close>.
\<close>

record task_validation =
  is_valid :: bool
  requires_confirmation :: "bool option"
  validation_message :: string
  reason :: "string option"
  confirmation_reason :: "string option"

definition truthy :: "string option \<Rightarrow> bool" where
  "truthy v \<longleftrightarrow> (case v of Some s \<Rightarrow> s \<noteq> [] | None \<Rightarrow> False)"

definition delete_check :: "NaturalLanguageCommand \<Rightarrow> dict \<Rightarrow> task_validation option" where
  "delete_check command ents =
     (let search_term = lower (dict_get ents ''search_term'' []);
          title = lower (dict_get ents ''task_title'' []);
          bulk_deletion_terms = [''all'', ''everything'', ''all tasks'', ''every task'', ''*'', ''bulk'']
      in if search_term \<in> set bulk_deletion_terms \<or> title \<in> set bulk_deletion_terms
         then Some \<lparr> is_valid = False, requires_confirmation = Some True,
                     validation_message = ''Deleting all tasks requires confirmation'',
                     reason = None, confirmation_reason = Some ''bulk_deletion'' \<rparr>
         else (let raw_input_lower = lower (raw_input command)
               in if list_ex (\<lambda>term. in_str term raw_input_lower)
                       [''delete everything'', ''remove all'', ''clear all'']
                  then Some \<lparr> is_valid = False, requires_confirmation = Some True,
                              validation_message = ''This bulk deletion operation requires confirmation'',
                              reason = None, confirmation_reason = Some ''bulk_deletion'' \<rparr>
                  else None))"

definition update_check :: "NaturalLanguageCommand \<Rightarrow> dict \<Rightarrow> task_validation option" where
  "update_check command ents =
     (if truthy (dict_lookup ents ''search_term'') \<or> truthy (dict_lookup ents ''filter'')
      then (let raw_input_lower = lower (raw_input command)
            in if list_ex (\<lambda>term. in_str term raw_input_lower) [''all'', ''every'', ''each'']
               then Some \<lparr> is_valid = False, requires_confirmation = Some True,
                           validation_message = ''Bulk update operation requires confirmation'',
                           reason = None, confirmation_reason = Some ''bulk_update'' \<rparr>
               else None)
      else None)"

text \<open>
  \<open>NaturalLanguageCommand\<close> sets \<open>use_enum_values\<close> in its \<open>Config\<close>: the constructor
  stores in the field \<open>intent\<close> the string value of the member, a plain \<open>str\<close>, and only
  a command made without validation (\<open>model_construct\<close>) holds the member itself. The
  record keeps the member that the field names; \<open>stored_intent\<close> is what the field holds,
  and \<open>attribute_value\<close> is the read of \<open>.value\<close> on it, an attribute that a \<open>str\<close> does
  not have.
\<close>

datatype stored_intent = AsString string | AsMember IntentType

definition constructed :: "NaturalLanguageCommand \<Rightarrow> stored_intent" where
  "constructed command = AsString (intent_value (intent command))"

fun attribute_value :: "stored_intent \<Rightarrow> py_error + string" where
  "attribute_value (AsString s) = Inl AttributeError"
| "attribute_value (AsMember i) = Inr (intent_value i)"

text \<open>
  The last part of the function reads the local variable \<open>entities\<close>, which is assigned
  only inside the branch for destructive intents: \<open>local_entities\<close> is that variable,
  \<open>None\<close> while unbound. The conjunction is evaluated left to right, so the variable is
  read only when the intent is CREATE\_TASK. \<open>intent_string\<close> is the value that
  \<open>command.intent.value\<close> gave.
\<close>

definition create_check ::
  "string \<Rightarrow> NaturalLanguageCommand \<Rightarrow> dict option \<Rightarrow> py_error + task_validation" where
  "create_check intent_string command local_entities =
     (let valid = \<lparr> is_valid = True, requires_confirmation = Some False,
                     validation_message = ''Task operation is valid'',
                     reason = None, confirmation_reason = None \<rparr>
      in if intent_string \<in> set [''CREATE_TASK'']
         then (case local_entities of
                 None \<Rightarrow> Inl UnboundLocalError
               | Some ents \<Rightarrow>
                   if \<not> truthy (dict_lookup ents ''task_title'')
                   then (if raw_input command = [] \<or> length (strip (raw_input command)) < 3
                         then Inr \<lparr> is_valid = False, requires_confirmation = None,
                                    validation_message = ''Not enough information to create a task'',
                                    reason = Some ''insufficient_task_info'', confirmation_reason = None \<rparr>
                         else Inr valid)
                   else Inr valid)
         else Inr valid)"

text \<open>
  \<open>validate_task_operation_on\<close> is the body of the function for a given content of the
  field \<open>intent\<close>. The first statement that runs reads \<open>command.intent.value\<close> (line 204);
  when the read raises, so does the function, and otherwise every later read gives the
  same string.
\<close>

definition validate_task_operation_on ::
  "stored_intent \<Rightarrow> NaturalLanguageCommand \<Rightarrow> py_error + task_validation" where
  "validate_task_operation_on field command =
     (case attribute_value field of
        Inl e \<Rightarrow> Inl e
      | Inr intent_string \<Rightarrow>
          (let destructive_operations = [''DELETE_TASK'', ''UPDATE_TASK'', ''CLEAR_ALL_TASKS'']
           in if intent_string \<in> set destructive_operations
              then (let ents = entities command
                    in case (if intent_string = ''DELETE_TASK''
                             then delete_check command ents else None) of
                         Some r \<Rightarrow> Inr r
                       | None \<Rightarrow>
                           (case (if intent_string = ''UPDATE_TASK''
                                  then update_check command ents else None) of
                              Some r \<Rightarrow> Inr r
                            | None \<Rightarrow> create_check intent_string command (Some ents)))
              else create_check intent_string command None))"

text \<open>The function on a command as the constructor builds it.\<close>

definition validate_task_operation :: "NaturalLanguageCommand \<Rightarrow> py_error + task_validation" where
  "validate_task_operation command = validate_task_operation_on (constructed command) command"

text \<open>A CREATE\_TASK command, as the classifier and the extractor build it.\<close>

definition create_command :: NaturalLanguageCommand where
  "create_command =
     \<lparr> raw_input = ''Add a task to buy groceries'', intent = CREATE_TASK,
       entities = [(''task_title'', ''buy groceries'')],
       confidence = 1 / 6, user_id = None, conversation_id = None, timestamp = None,
       suggestions = None \<rparr>"

definition best_ok :: "string \<Rightarrow> (IntentType \<times> string list) list \<Rightarrow> IntentType \<times> nat \<Rightarrow> bool" where
  "best_ok t seen best \<longleftrightarrow>
     (snd best = 0 \<and> fst best = UNKNOWN \<and> list_all (\<lambda>e. matched_count (snd e) t = 0) seen)
   \<or> (snd best > 0 \<and> list_ex (\<lambda>e. fst e = fst best \<and> matched_count (snd e) t = snd best) seen
        \<and> list_all (\<lambda>e. matched_count (snd e) t \<le> snd best) seen)"

section \<open>Regular expressions (the fragment of \<open>re\<close> that the sources use)\<close>

text \<open>
  The sources call \<open>re.search\<close>, \<open>re.match\<close>, \<open>re.split\<close> and \<open>re.sub\<close>. A pattern is a
  term of \<open>regex\<close>; quantifiers apply to a single character class, which is all the
  patterns of the sources need. \<open>Rep greedy lo hi c\<close> is \<open>c{lo,hi}\<close>, with \<open>hi = None\<close> for
  no upper bound, and the lazy variant when \<open>greedy\<close> is false.
\<close>

datatype cclass =
    Lit char
  | Dot
  | Space
  | Word
  | Digit
  | Letter
  | OneOf "char list"
  | NoneOf "char list"

datatype regex =
    Chr cclass
  | Eps
  | Seq regex regex
  | Alt regex regex
  | Opt regex
  | Rep bool nat "nat option" cclass
  | Group nat regex
  | Eol
  | WordB
  | NotAfterWord
  | NotBefore char

definition is_digit :: "char \<Rightarrow> bool" where
  "is_digit c \<longleftrightarrow> c \<in> set ''0123456789''"

definition is_letter :: "char \<Rightarrow> bool" where
  "is_letter c \<longleftrightarrow> c \<in> set ''abcdefghijklmnopqrstuvwxyzABCDEFGHIJKLMNOPQRSTUVWXYZ''"

definition is_word :: "char \<Rightarrow> bool" where
  "is_word c \<longleftrightarrow> is_letter c \<or> is_digit c \<or> c = CHR ''_''"

fun cc_matches :: "bool \<Rightarrow> cclass \<Rightarrow> char \<Rightarrow> bool" where
  "cc_matches ic (Lit x) c = (if ic then lower_char c = lower_char x else c = x)"
| "cc_matches ic Dot c = (c \<noteq> CHR 0x0A)"
| "cc_matches ic Space c = isspace c"
| "cc_matches ic Word c = is_word c"
| "cc_matches ic Digit c = is_digit c"
| "cc_matches ic Letter c = is_letter c"
| "cc_matches ic (OneOf xs) c = (if ic then lower_char c \<in> set (map lower_char xs) else c \<in> set xs)"
| "cc_matches ic (NoneOf xs) c = (if ic then lower_char c \<notin> set (map lower_char xs) else c \<notin> set xs)"

text \<open>
  The matcher backtracks as \<open>re\<close> does: alternatives left to right, a greedy quantifier
  longest first, a lazy one shortest first, and the first way that lets the rest of the
  pattern (the continuation \<open>k\<close>) succeed is the match. A position is the character before
  it (\<open>None\<close> at the start of the string), the text from it on, and the groups closed so
  far.
\<close>

datatype mstate = MState (before: "char option") (rest: string) (groups: "(nat \<times> string) list")

definition dec :: "nat option \<Rightarrow> nat option" where
  "dec hi = (case hi of None \<Rightarrow> None | Some h \<Rightarrow> Some (h - 1))"

fun rep_greedy ::
  "(char \<Rightarrow> bool) \<Rightarrow> nat \<Rightarrow> nat option \<Rightarrow> (char option \<Rightarrow> string \<Rightarrow> 'a option)
     \<Rightarrow> char option \<Rightarrow> string \<Rightarrow> 'a option" where
  "rep_greedy P lo hi k p [] = (if lo = 0 then k p [] else None)"
| "rep_greedy P lo hi k p (c # cs) =
     (if hi \<noteq> Some 0 \<and> P c
      then (case rep_greedy P (lo - 1) (dec hi) k (Some c) cs of
              Some r \<Rightarrow> Some r
            | None \<Rightarrow> if lo = 0 then k p (c # cs) else None)
      else if lo = 0 then k p (c # cs) else None)"

fun rep_lazy ::
  "(char \<Rightarrow> bool) \<Rightarrow> nat \<Rightarrow> nat option \<Rightarrow> (char option \<Rightarrow> string \<Rightarrow> 'a option)
     \<Rightarrow> char option \<Rightarrow> string \<Rightarrow> 'a option" where
  "rep_lazy P lo hi k p [] = (if lo = 0 then k p [] else None)"
| "rep_lazy P lo hi k p (c # cs) =
     (case (if lo = 0 then k p (c # cs) else None) of
        Some r \<Rightarrow> Some r
      | None \<Rightarrow> if hi \<noteq> Some 0 \<and> P c then rep_lazy P (lo - 1) (dec hi) k (Some c) cs else None)"

definition at_end :: "string \<Rightarrow> bool" where
  "at_end s \<longleftrightarrow> s = [] \<or> s = [CHR 0x0A]"

definition word_before :: "char option \<Rightarrow> bool" where
  "word_before p = (case p of None \<Rightarrow> False | Some c \<Rightarrow> is_word c)"

definition word_after :: "string \<Rightarrow> bool" where
  "word_after s = (case s of [] \<Rightarrow> False | c # cs \<Rightarrow> is_word c)"

definition close_group :: "nat \<Rightarrow> mstate \<Rightarrow> mstate \<Rightarrow> mstate" where
  "close_group n st st' =
     MState (before st') (rest st')
       ((n, take (length (rest st) - length (rest st')) (rest st)) # groups st')"

primrec rmatch :: "bool \<Rightarrow> regex \<Rightarrow> (mstate \<Rightarrow> mstate option) \<Rightarrow> mstate \<Rightarrow> mstate option" where
  "rmatch ic (Chr cc) k st =
     (case rest st of
        [] \<Rightarrow> None
      | c # cs \<Rightarrow> if cc_matches ic cc c then k (MState (Some c) cs (groups st)) else None)"
| "rmatch ic Eps k st = k st"
| "rmatch ic (Seq r1 r2) k st = rmatch ic r1 (rmatch ic r2 k) st"
| "rmatch ic (Alt r1 r2) k st =
     (case rmatch ic r1 k st of Some r \<Rightarrow> Some r | None \<Rightarrow> rmatch ic r2 k st)"
| "rmatch ic (Opt r) k st =
     (case rmatch ic r k st of Some r \<Rightarrow> Some r | None \<Rightarrow> k st)"
| "rmatch ic (Rep greedy lo hi cc) k st =
     (if greedy
      then rep_greedy (cc_matches ic cc) lo hi (\<lambda>p s. k (MState p s (groups st))) (before st) (rest st)
      else rep_lazy (cc_matches ic cc) lo hi (\<lambda>p s. k (MState p s (groups st))) (before st) (rest st))"
| "rmatch ic (Group n r) k st = rmatch ic r (\<lambda>st'. k (close_group n st st')) st"
| "rmatch ic Eol k st = (if at_end (rest st) then k st else None)"
| "rmatch ic WordB k st = (if word_before (before st) \<noteq> word_after (rest st) then k st else None)"
| "rmatch ic NotAfterWord k st = (if word_before (before st) then None else k st)"
| "rmatch ic (NotBefore x) k st =
     (case rest st of [] \<Rightarrow> k st | c # cs \<Rightarrow> if c = x then None else k st)"

text \<open>
  A match object: where the match starts, its text (\<open>group(0)\<close>) and its groups.
  \<open>re_match\<close> tries the start of the string only, \<open>re_search\<close> every position from the
  left.
\<close>

record match_object =
  m_start :: nat
  group0 :: string
  m_groups :: "(nat \<times> string) list"

definition match_at :: "bool \<Rightarrow> regex \<Rightarrow> char option \<Rightarrow> nat \<Rightarrow> string \<Rightarrow> match_object option" where
  "match_at ic r p i s =
     (case rmatch ic r Some (MState p s []) of
        None \<Rightarrow> None
      | Some st \<Rightarrow> Some \<lparr> m_start = i, group0 = take (length s - length (rest st)) s,
                          m_groups = groups st \<rparr>)"

fun search_from :: "bool \<Rightarrow> regex \<Rightarrow> char option \<Rightarrow> nat \<Rightarrow> string \<Rightarrow> match_object option" where
  "search_from ic r p i [] = match_at ic r p i []"
| "search_from ic r p i (c # cs) =
     (case match_at ic r p i (c # cs) of
        Some m \<Rightarrow> Some m
      | None \<Rightarrow> search_from ic r (Some c) (Suc i) cs)"

definition re_search :: "bool \<Rightarrow> regex \<Rightarrow> string \<Rightarrow> match_object option" where
  "re_search ic r s = search_from ic r None 0 s"

definition re_match :: "bool \<Rightarrow> regex \<Rightarrow> string \<Rightarrow> match_object option" where
  "re_match ic r s = match_at ic r None 0 s"

definition group :: "match_object \<Rightarrow> nat \<Rightarrow> string" where
  "group m n = (case map_of (m_groups m) n of Some g \<Rightarrow> g | None \<Rightarrow> [])"

text \<open>Writing patterns: a literal word, a sequence, a choice, \<open>\s+\<close> and \<open>\s*\<close>.\<close>

definition str :: "string \<Rightarrow> regex" where
  "str s = foldr (\<lambda>c r. Seq (Chr (Lit c)) r) s Eps"

definition seqs :: "regex list \<Rightarrow> regex" where
  "seqs rs = foldr Seq rs Eps"

fun alts :: "regex list \<Rightarrow> regex" where
  "alts [] = Eps"
| "alts [r] = r"
| "alts (r # rs) = Alt r (alts rs)"

definition ws1 :: regex where
  "ws1 = Rep True 1 None Space"

definition ws0 :: regex where
  "ws0 = Rep True 0 None Space"

text \<open>\<open>re.sub(r'\s+', ' ', s)\<close>: every run of white space becomes one blank.\<close>

fun collapse_spaces :: "bool \<Rightarrow> string \<Rightarrow> string" where
  "collapse_spaces in_run [] = []"
| "collapse_spaces in_run (c # cs) =
     (if isspace c
      then (if in_run then collapse_spaces True cs else CHR '' '' # collapse_spaces True cs)
      else c # collapse_spaces False cs)"

section \<open>Entity extractor (nlp\_intent/entity\_extractor.py)\<close>

definition sentence_end :: regex where
  "sentence_end = Alt (Chr (Lit CHR ''.'')) Eol"

definition add_verbs :: regex where
  "add_verbs = alts (map str [''add'', ''create'', ''make'', ''buy'', ''do'', ''complete'', ''finish''])"

definition add_patterns :: "regex list" where
  "add_patterns =
     [seqs [add_verbs, ws1, Opt (seqs [str ''a'', ws1]),
            alts [seqs [str ''task'', ws1, str ''to'', ws1], seqs [str ''to'', ws1],
                  seqs [str ''that'', ws1]],
            Group 1 (Rep False 1 None (NoneOf ''.!?'')), sentence_end],
      seqs [add_verbs, ws1, Opt (seqs [str ''a'', ws1]),
            Group 1 (Rep False 1 None (NoneOf ''!.?'')), sentence_end]]"

definition update_verbs :: regex where
  "update_verbs = alts (map str [''update'', ''change'', ''modify''])"

definition to_or_as :: regex where
  "to_or_as = alts [str ''to'', str ''as'']"

definition update_attribute_pattern :: "regex \<Rightarrow> regex" where
  "update_attribute_pattern attribute =
     seqs [update_verbs, ws1, Opt (seqs [str ''task'', ws1]),
           Group 1 (Rep False 1 None Dot), ws1, attribute, ws1, to_or_as, ws1,
           Group 2 (Rep False 1 None Dot), sentence_end]"

text \<open>Each pattern with the number of its groups (\<open>len(match.groups())\<close>).\<close>

definition update_patterns :: "(regex \<times> nat) list" where
  "update_patterns =
     [(seqs [update_verbs, ws1, Opt (seqs [str ''the'', ws1]),
             Group 1 (Rep True 1 None Word), ws1, str ''of'', ws1,
             alts [str ''task'', str ''the''], ws1,
             Group 2 (Rep False 0 None Dot),
             alts [seqs [ws1, str ''to''], seqs [ws1, str ''as'']], ws1,
             Group 3 (Rep False 1 None Dot), sentence_end], 3),
      (seqs [update_verbs, ws1, Opt (seqs [str ''the'', ws1]),
             Group 1 (Rep True 1 None Word), ws1, to_or_as, ws1,
             Group 2 (Rep False 1 None Dot), sentence_end], 2),
      (update_attribute_pattern (alts [str ''title'', str ''name'']), 2),
      (update_attribute_pattern (str ''description''), 2),
      (update_attribute_pattern (str ''priority''), 2),
      (update_attribute_pattern (alts [str ''due date'', str ''date'']), 2)]"

definition search_verbs :: regex where
  "search_verbs =
     alts [str ''find'', str ''search'',
           seqs [str ''look'', Rep True 0 None Dot, str ''for''],
           seqs [str ''show'', Rep True 0 None Dot, str ''me'']]"

definition search_patterns :: "regex list" where
  "search_patterns =
     [seqs [search_verbs, Rep False 0 None Dot,
            alts [seqs [str ''task'', Opt (Chr (Lit CHR ''s''))],
                  seqs [str ''item'', Opt (Chr (Lit CHR ''s''))]],
            ws1, alts (map str [''containing'', ''about'', ''with'', ''like'']), ws1,
            Group 1 (Rep False 1 None (NoneOf ''!.?'')), sentence_end],
      seqs [search_verbs, ws1, Group 1 (Rep False 1 None (NoneOf ''!.?'')), sentence_end]]"

definition date_separator :: regex where
  "date_separator = Chr (OneOf ''/-'')"

definition date_patterns :: "regex list" where
  "date_patterns =
     [seqs [str ''on'', ws1,
            Group 1 (seqs [Rep True 1 (Some 2) Digit, date_separator, Rep True 1 (Some 2) Digit,
                           date_separator, Rep True 2 (Some 4) Digit])],
      seqs [str ''on'', ws1,
            Group 1 (seqs [Rep True 1 None Letter, ws1, Rep True 1 (Some 2) Digit,
                           Opt (alts (map str [''st'', ''nd'', ''rd'', ''th''])),
                           str '','', ws0, Rep True 4 (Some 4) Digit])],
      alts [str ''today'', str ''tomorrow'', seqs [str ''next'', ws1, str ''week''],
            seqs [str ''next'', ws1, str ''month'']]]"

definition attr_map :: dict where
  "attr_map =
     [(''title'', ''title''), (''name'', ''title''), (''description'', ''description''),
      (''priority'', ''priority''), (''due date'', ''due_date''), (''date'', ''due_date''),
      (''category'', ''category'')]"

text \<open>
  Each loop of \<open>_rule_based_extract\<close> takes the first pattern that matches and stops.
\<close>

fun first_match :: "regex list \<Rightarrow> string \<Rightarrow> match_object option" where
  "first_match [] s = None"
| "first_match (r # rs) s =
     (case re_search True r s of Some m \<Rightarrow> Some m | None \<Rightarrow> first_match rs s)"

fun first_match_counted :: "(regex \<times> nat) list \<Rightarrow> string \<Rightarrow> (match_object \<times> nat) option" where
  "first_match_counted [] s = None"
| "first_match_counted (rn # rs) s =
     (case re_search True (fst rn) s of
        Some m \<Rightarrow> Some (m, snd rn)
      | None \<Rightarrow> first_match_counted rs s)"

definition extract_info_type :: "string \<Rightarrow> dict \<Rightarrow> dict" where
  "extract_info_type text_lower ents =
     (if in_str ''my name'' text_lower \<or> in_str ''what is my name'' text_lower
         \<or> in_str ''tell me my name'' text_lower
      then dict_set ents ''info_type'' ''name''
      else if in_str ''my email'' text_lower \<or> in_str ''what is my email'' text_lower
              \<or> in_str ''tell me my email'' text_lower
      then dict_set ents ''info_type'' ''email''
      else if in_str ''my info'' text_lower \<or> in_str ''user info'' text_lower
              \<or> in_str ''who am i'' text_lower
      then dict_set ents ''info_type'' ''general''
      else ents)"

definition extract_task_title :: "string \<Rightarrow> dict \<Rightarrow> dict" where
  "extract_task_title s ents =
     (case first_match add_patterns s of
        None \<Rightarrow> ents
      | Some m \<Rightarrow> dict_set ents ''task_title'' (collapse_spaces False (strip (group m 1))))"

definition extract_update :: "string \<Rightarrow> dict \<Rightarrow> dict" where
  "extract_update s ents =
     (case first_match_counted update_patterns s of
        None \<Rightarrow> ents
      | Some (m, n) \<Rightarrow>
          (let attr = strip (group m 1);
               search_term = (if n = 3 then strip (group m 2)
                              else dict_get ents ''task_title'' (dict_get ents ''search_term'' []));
               new_value = (if n = 3 then strip (group m 3) else strip (group m 2));
               ents1 = (case map_of attr_map (lower attr) of
                          Some key \<Rightarrow> dict_set ents key new_value
                        | None \<Rightarrow> ents)
           in if search_term \<noteq> [] then dict_set ents1 ''search_term'' search_term else ents1))"

definition extract_search_term :: "string \<Rightarrow> dict \<Rightarrow> dict" where
  "extract_search_term s ents =
     (case first_match search_patterns s of
        None \<Rightarrow> ents
      | Some m \<Rightarrow> dict_set ents ''search_term'' (collapse_spaces False (strip (group m 1))))"

definition backfill_task_title :: "dict \<Rightarrow> dict" where
  "backfill_task_title ents =
     (case (map_of ents ''task_title'', map_of ents ''search_term'') of
        (None, Some term) \<Rightarrow> dict_set ents ''task_title'' term
      | _ \<Rightarrow> ents)"

definition extract_priority :: "string \<Rightarrow> dict \<Rightarrow> dict" where
  "extract_priority text_lower ents =
     (case find (\<lambda>priority. in_str priority text_lower) [''high'', ''medium'', ''low''] of
        Some priority \<Rightarrow> dict_set ents ''priority'' priority
      | None \<Rightarrow> ents)"

definition extract_due_date :: "string \<Rightarrow> dict \<Rightarrow> dict" where
  "extract_due_date s ents =
     (case first_match date_patterns s of
        None \<Rightarrow> ents
      | Some m \<Rightarrow> dict_set ents ''due_date'' (group0 m))"

definition rule_based_extract :: "string \<Rightarrow> dict" where
  "rule_based_extract s =
     extract_due_date s
       (extract_priority (lower s)
          (backfill_task_title
             (extract_search_term s
                (extract_update s
                   (extract_task_title s
                      (extract_info_type (lower s) []))))))"

text \<open>
  \<open>extract_entities\<close> and \<open>NLPIntentAgent.process_input\<close>. The external extractor is an
  input like the external classifier: absent, or a function whose result is used when it
  is a non-empty dictionary, and \<open>None\<close> when it raises.
\<close>

definition extract_entities :: "(string \<Rightarrow> dict option) option \<Rightarrow> string \<Rightarrow> dict" where
  "extract_entities client s =
     (case client of
        None \<Rightarrow> rule_based_extract s
      | Some cohere \<Rightarrow>
          (case cohere s of
             None \<Rightarrow> rule_based_extract s
           | Some cohere_entities \<Rightarrow>
               if cohere_entities \<noteq> [] then cohere_entities else rule_based_extract s))"

definition process_input ::
  "(string \<Rightarrow> string list \<Rightarrow> cohere_outcome) option \<Rightarrow> (string \<Rightarrow> dict option) option
     \<Rightarrow> string \<Rightarrow> string option \<Rightarrow> string option \<Rightarrow> NaturalLanguageCommand" where
  "process_input classifier extractor s uid cid =
     (case classify_intent classifier s of
        Inr (i, c) \<Rightarrow>
          \<lparr> raw_input = s, intent = i, entities = extract_entities extractor s, confidence = c,
            user_id = uid, conversation_id = cid, timestamp = None, suggestions = None \<rparr>
      | Inl e \<Rightarrow>
          \<lparr> raw_input = s, intent = UNKNOWN, entities = [], confidence = 0,
            user_id = uid, conversation_id = cid, timestamp = None, suggestions = None \<rparr>)"

text \<open>The two utterances of the end-to-end scenarios, processed on the rule-based path.\<close>

definition delete_all_command :: NaturalLanguageCommand where
  "delete_all_command = process_input None None ''Delete all my tasks'' None None"

definition find_project_command :: NaturalLanguageCommand where
  "find_project_command = process_input None None ''Find tasks with project in the title'' None None"

section \<open>Quality validator: commands\<close>

text \<open>
  \<open>validate_command\<close> runs \<open>validate_user_input\<close> on every entity value, in the order of
  the dictionary. Of \<open>validate_user_input\<close> only the verdict \<open>is_valid\<close> is used; it is
  the parameter \<open>input_ok\<close>.
\<close>

fun first_invalid_entity :: "(string \<Rightarrow> bool) \<Rightarrow> dict \<Rightarrow> string option" where
  "first_invalid_entity input_ok [] = None"
| "first_invalid_entity input_ok (kv # kvs) =
     (if \<not> input_ok (snd kv) then Some (fst kv) else first_invalid_entity input_ok kvs)"

definition validate_command :: "(string \<Rightarrow> bool) \<Rightarrow> NaturalLanguageCommand \<Rightarrow> task_validation" where
  "validate_command input_ok command =
     (if raw_input command = []
      then \<lparr> is_valid = False, requires_confirmation = None,
             validation_message = ''Command is missing raw input'',
             reason = Some ''missing_raw_input'', confirmation_reason = None \<rparr>
      else (case first_invalid_entity input_ok (entities command) of
              Some key \<Rightarrow>
                \<lparr> is_valid = False, requires_confirmation = None,
                  validation_message = ''Entity '' @ [CHR 0x27] @ key @ [CHR 0x27] @ '' contains invalid content'',
                  reason = Some (''invalid_entity_'' @ key), confirmation_reason = None \<rparr>
            | None \<Rightarrow>
                \<lparr> is_valid = True, requires_confirmation = None,
                  validation_message = ''Command is valid'',
                  reason = Some ''valid_command'', confirmation_reason = None \<rparr>))"

section \<open>Multi-intent processor (orchestrator/multi\_intent.py)\<close>

text \<open>
  The separator patterns are the list that the first statement of the constructor assigns
  to \<open>self.intent_separator_patterns\<close>; it is all that \<open>extract_multiple_intents\<close> reads
  of \<open>self\<close>.
\<close>

definition intent_separator_patterns :: "regex list" where
  "intent_separator_patterns =
     [seqs [WordB, str ''and'', WordB],
      Chr (Lit CHR '';''),
      Chr (Lit CHR ''.''),
      Alt (Chr (Lit CHR ''?'')) (Chr (Lit CHR ''!'')),
      seqs [Chr (Lit CHR '',''), ws0, str ''and'', ws0],
      seqs [NotAfterWord, Chr (Lit CHR ''&''), NotBefore CHR ''&'']]"

text \<open>
  \<open>re.split('(' + pattern + ')', part)\<close>, without flags: the pieces between the matches,
  interleaved with the matched separators. \<open>acc\<close> is the piece being read, reversed, and
  \<open>skip\<close> the number of characters of the last match still to pass over. None of the
  separator patterns matches the empty string; an empty match is passed over.
\<close>

fun re_split_from :: "regex \<Rightarrow> char option \<Rightarrow> string \<Rightarrow> nat \<Rightarrow> string \<Rightarrow> string list" where
  "re_split_from r p acc skip [] = [rev acc]"
| "re_split_from r p acc (Suc skip) (c # cs) = re_split_from r (Some c) acc skip cs"
| "re_split_from r p acc 0 (c # cs) =
     (case match_at False r p 0 (c # cs) of
        None \<Rightarrow> re_split_from r (Some c) (c # acc) 0 cs
      | Some m \<Rightarrow>
          if group0 m = [] then re_split_from r (Some c) (c # acc) 0 cs
          else rev acc # group0 m # re_split_from r (Some c) [] (length (group0 m) - 1) cs)"

definition re_split :: "regex \<Rightarrow> string \<Rightarrow> string list" where
  "re_split r s = re_split_from r None [] 0 s"



text \<open>
  The inner loop of \<open>extract_multiple_intents\<close> over the items of one split:
  \<open>current_part\<close> collects the items that are not separators.
\<close>

fun reconstruct :: "regex \<Rightarrow> string list \<Rightarrow> string \<Rightarrow> string list" where
  "reconstruct r [] current_part = (if strip current_part \<noteq> [] then [strip current_part] else [])"
| "reconstruct r (item # items) current_part =
     (if re_match True r (strip item) \<noteq> None
      then (if strip current_part \<noteq> []
            then strip current_part # reconstruct r items []
            else reconstruct r items current_part)
      else reconstruct r items (current_part @ item))"

definition separate :: "regex \<Rightarrow> string list \<Rightarrow> string list" where
  "separate r parts =
     concat (map (\<lambda>part. filter (\<lambda>p. strip p \<noteq> []) (reconstruct r (re_split r part) [])) parts)"




text \<open>
  The constructor of \<open>MultiIntentProcessor\<close> builds the priority table from a dictionary
  display whose keys are attribute reads \<open>IntentType.NAME\<close>, evaluated in the order
  written. \<open>IntentType_attribute\<close> is that read: a name that the enumeration does not
  declare raises \<open>AttributeError\<close>. (In this enumeration every member's name is its value.)
\<close>

definition IntentType_attribute :: "string \<Rightarrow> py_error + IntentType" where
  "IntentType_attribute name =
     (case find (\<lambda>i. intent_value i = name) all_intents of
        Some i \<Rightarrow> Inr i
      | None \<Rightarrow> Inl AttributeError)"

definition intent_priority_display :: "(string \<times> nat) list" where
  "intent_priority_display =
     [(''UNKNOWN'', 0), (''LIST_TASKS'', 1), (''SEARCH_TASKS'', 2), (''FILTER_TASKS'', 3),
      (''SORT_TASKS'', 4), (''CREATE_TASK'', 5), (''UPDATE_TASK'', 6), (''DELETE_TASK'', 7),
      (''GET_USER_INFO'', 8), (''CANCELLED'', 9)]"

fun build_priority_map :: "(string \<times> nat) list \<Rightarrow> py_error + (IntentType \<times> nat) list" where
  "build_priority_map [] = Inr []"
| "build_priority_map (entry # entries) =
     (case IntentType_attribute (fst entry) of
        Inl e \<Rightarrow> Inl e
      | Inr i \<Rightarrow>
          (case build_priority_map entries of
             Inl e \<Rightarrow> Inl e
           | Inr d \<Rightarrow> Inr ((i, snd entry) # d)))"

record MultiIntentProcessor =
  separator_patterns :: "regex list"
  intent_priority_map :: "(IntentType \<times> nat) list"

definition MultiIntentProcessor_init :: "py_error + MultiIntentProcessor" where
  "MultiIntentProcessor_init =
     (case build_priority_map intent_priority_display of
        Inl e \<Rightarrow> Inl e
      | Inr d \<Rightarrow> Inr \<lparr> separator_patterns = intent_separator_patterns, intent_priority_map = d \<rparr>)"

text \<open>
  \<open>_process_hierarchically\<close> calls \<open>nlp_intent_agent.classify_intent\<close> and
  \<open>task_control_agent.process_command\<close>. \<open>NLPIntentAgent\<close> defines \<open>process_input\<close>,
  \<open>get_suggested_intents\<close> and \<open>validate_command\<close>, and \<open>TaskControlAgent\<close> defines
  \<open>execute_command\<close> and \<open>validate_task_operation\<close>: neither attribute exists, which is
  \<open>None\<close> here, and reading it raises \<open>AttributeError\<close>.
\<close>

definition nlp_intent_agent_classify_intent :: "(string \<Rightarrow> NaturalLanguageCommand) option" where
  "nlp_intent_agent_classify_intent = None"

definition task_control_agent_process_command ::
  "(NaturalLanguageCommand \<Rightarrow> string \<Rightarrow> ProcessedCommandResult) option" where
  "task_control_agent_process_command = None"

text \<open>
  The first loop, which classifies every statement, is outside any \<open>try\<close>: what it
  raises leaves the function.
\<close>

fun classify_statements ::
  "(string \<Rightarrow> NaturalLanguageCommand) option \<Rightarrow> string \<Rightarrow> string list
     \<Rightarrow> py_error + NaturalLanguageCommand list" where
  "classify_statements classify uid [] = Inr []"
| "classify_statements classify uid (statement # statements) =
     (case classify of
        None \<Rightarrow> Inl AttributeError
      | Some f \<Rightarrow>
          (case classify_statements classify uid statements of
             Inl e \<Rightarrow> Inl e
           | Inr commands \<Rightarrow> Inr ((f statement)\<lparr> user_id := Some uid \<rparr> # commands)))"

text \<open>
  \<open>classified_commands.sort(key=..., reverse=True)\<close>: a stable sort, highest priority
  first, with \<open>intent_priority_map.get(cmd.intent, 0)\<close> as the key.
\<close>

definition priority :: "MultiIntentProcessor \<Rightarrow> NaturalLanguageCommand \<Rightarrow> nat" where
  "priority self cmd =
     (case map_of (intent_priority_map self) (intent cmd) of Some p \<Rightarrow> p | None \<Rightarrow> 0)"

definition prioritize ::
  "MultiIntentProcessor \<Rightarrow> NaturalLanguageCommand list \<Rightarrow> NaturalLanguageCommand list" where
  "prioritize self cmds = sort_key (\<lambda>cmd. - int (priority self cmd)) cmds"

text \<open>
  The second loop handles each command inside a \<open>try\<close>: an invalid command and an
  exception both become a failed result.
\<close>

definition process_prioritized ::
  "(string \<Rightarrow> bool) \<Rightarrow> (NaturalLanguageCommand \<Rightarrow> string \<Rightarrow> ProcessedCommandResult) option
     \<Rightarrow> string \<Rightarrow> NaturalLanguageCommand \<Rightarrow> ProcessedCommandResult" where
  "process_prioritized input_ok process_command auth_token command =
     (let validation_result = validate_command input_ok command
      in if \<not> is_valid validation_result
         then \<lparr> success = False, result_message = validation_message validation_result,
                result_intent = Some (intent command), result_entities = entities command,
                task_result = None, user_context = None, result_suggestions = Some [],
                follow_up_required = False \<rparr>
         else (case process_command of
                 Some f \<Rightarrow> f command auth_token
               | None \<Rightarrow>
                   \<lparr> success = False, result_message = ''Error processing: '' @ raw_input command,
                     result_intent = Some (intent command), result_entities = entities command,
                     task_result = None, user_context = None,
                     result_suggestions = Some [''Try this request separately''],
                     follow_up_required = False \<rparr>))"

definition process_hierarchically ::
  "MultiIntentProcessor \<Rightarrow> (string \<Rightarrow> bool) \<Rightarrow> string list \<Rightarrow> string \<Rightarrow> string
     \<Rightarrow> py_error + ProcessedCommandResult list" where
  "process_hierarchically self input_ok intent_statements uid auth_token =
     (case classify_statements nlp_intent_agent_classify_intent uid intent_statements of
        Inl e \<Rightarrow> Inl e
      | Inr classified_commands \<Rightarrow>
          Inr (map (process_prioritized input_ok task_control_agent_process_command auth_token)
                 (prioritize self classified_commands)))"

section \<open>Conversation state (services/conversation\_state.py)\<close>

text \<open>
  The only dictionary ever stored as a pending action is the one that
  \<open>start_confirmation_flow\<close> builds, with the keys \<open>type\<close>, \<open>action\<close>, \<open>details\<close> and
  \<open>timestamp\<close>; it is never empty, so a stored pending action is true as a condition.
  \<open>None\<close> for \<open>action\<close> is a key that the caller's \<open>action_data\<close> does not have.

  The \<open>details\<close> of \<open>action_data\<close> are stored as they come: \<open>NoDetails\<close> when the key is
  absent (\<open>action_data.get("details")\<close> is then \<open>None\<close>), a dictionary, or \<open>NotADict\<close>, a
  value that is not a dictionary and on which the test \<open>"task_title" in details\<close> or the
  subscript \<open>details['task_title']\<close> raises (\<open>None\<close> under the key, a number, a string that
  contains \<open>task_title\<close>). Any other container, which does not hold \<open>task_title\<close>, behaves
  as a dictionary without that key.
\<close>

datatype details_value = NoDetails | NotADict | Details dict

record PendingAction =
  pending_type :: string
  pending_action_name :: "string option"
  pending_details :: details_value
  pending_timestamp :: datetime

record Conversation =
  conv_id :: string
  conv_user_id :: string
  conv_created_at :: datetime
  last_updated :: datetime
  state :: string
  messages :: "(string \<times> string \<times> datetime) list"
  conv_context :: dict
  pending_action :: "PendingAction option"
  conv_expires_at :: datetime

record ConversationState =
  conversations :: "string \<rightharpoonup> Conversation"

definition ConversationState_init :: ConversationState where
  "ConversationState_init = \<lparr> conversations = Map.empty \<rparr>"

definition timedelta_hours :: "int \<Rightarrow> int" where
  "timedelta_hours h = h * 3600 * 1000000"

definition create_conversation :: "ConversationState \<Rightarrow> datetime \<Rightarrow> string \<Rightarrow> string \<Rightarrow> ConversationState \<times> string" where
  "create_conversation mgr now uuid4 uid =
     (mgr\<lparr> conversations := (conversations mgr)(uuid4 \<mapsto>
         \<lparr> conv_id = uuid4, conv_user_id = uid, conv_created_at = now, last_updated = now,
           state = ''ACTIVE'', messages = [], conv_context = [], pending_action = None,
           conv_expires_at = now + timedelta_hours 24 \<rparr>) \<rparr>, uuid4)"

definition end_conversation :: "ConversationState \<Rightarrow> string \<Rightarrow> ConversationState" where
  "end_conversation mgr cid = mgr\<lparr> conversations := (conversations mgr)(cid := None) \<rparr>"

definition get_conversation :: "ConversationState \<Rightarrow> datetime \<Rightarrow> string \<Rightarrow> ConversationState \<times> Conversation option" where
  "get_conversation mgr now cid =
     (case conversations mgr cid of
        Some conv \<Rightarrow>
          if now > conv_expires_at conv then (end_conversation mgr cid, None) else (mgr, Some conv)
      | None \<Rightarrow> (mgr, None))"

definition update_conversation_state :: "ConversationState \<Rightarrow> datetime \<Rightarrow> string \<Rightarrow> string \<Rightarrow> ConversationState" where
  "update_conversation_state mgr now cid new_state =
     (case conversations mgr cid of
        Some conv \<Rightarrow>
          mgr\<lparr> conversations := (conversations mgr)(cid \<mapsto> conv\<lparr> state := new_state, last_updated := now \<rparr>) \<rparr>
      | None \<Rightarrow> mgr)"

definition add_message :: "ConversationState \<Rightarrow> datetime \<Rightarrow> string \<Rightarrow> string \<Rightarrow> string \<Rightarrow> ConversationState" where
  "add_message mgr now cid role content =
     (case conversations mgr cid of
        Some conv \<Rightarrow>
          mgr\<lparr> conversations := (conversations mgr)(cid \<mapsto>
                 conv\<lparr> messages := messages conv @ [(role, content, now)], last_updated := now \<rparr>) \<rparr>
      | None \<Rightarrow> mgr)"

definition set_pending_action :: "ConversationState \<Rightarrow> datetime \<Rightarrow> string \<Rightarrow> PendingAction \<Rightarrow> ConversationState" where
  "set_pending_action mgr now cid action =
     (case conversations mgr cid of
        Some conv \<Rightarrow>
          mgr\<lparr> conversations := (conversations mgr)(cid \<mapsto>
                 conv\<lparr> pending_action := Some action, last_updated := now \<rparr>) \<rparr>
      | None \<Rightarrow> mgr)"

definition get_pending_action :: "ConversationState \<Rightarrow> string \<Rightarrow> PendingAction option" where
  "get_pending_action mgr cid =
     (case conversations mgr cid of Some conv \<Rightarrow> pending_action conv | None \<Rightarrow> None)"

definition clear_pending_action :: "ConversationState \<Rightarrow> datetime \<Rightarrow> string \<Rightarrow> ConversationState" where
  "clear_pending_action mgr now cid =
     (case conversations mgr cid of
        Some conv \<Rightarrow>
          mgr\<lparr> conversations := (conversations mgr)(cid \<mapsto>
                 conv\<lparr> pending_action := None, last_updated := now \<rparr>) \<rparr>
      | None \<Rightarrow> mgr)"

section \<open>Orchestration agent (orchestrator/agent.py)\<close>

text \<open>
  The agent's collaborators are inputs, and each may raise, which is \<open>None\<close>: the verdict
  of \<open>validate_and_process\<close> (\<open>proceed\<close> and its message), whether \<open>get_user_info\<close>
  authenticates the token, the command that \<open>process_input\<close> builds, the verdict of
  \<open>validate_user_input\<close>, the result of \<open>execute_command\<close>, the verdict of
  \<open>check_safety\<close> on that result, what the response composer does, and whether
  \<open>log_interaction\<close> returns.
\<close>

datatype compose_outcome = Composed string | ComposeFallback string | ComposeRaises

record collaborators =
  validate_and_process :: "string \<Rightarrow> (bool \<times> string) option"
  get_user_info :: "string \<Rightarrow> bool option"
  nlp_process_input :: "string \<Rightarrow> string \<Rightarrow> NaturalLanguageCommand option"
  validate_user_input :: "string \<Rightarrow> bool"
  execute_command :: "NaturalLanguageCommand \<Rightarrow> string \<Rightarrow> ProcessedCommandResult option"
  check_safety :: "ProcessedCommandResult \<Rightarrow> bool option"
  compose :: "ProcessedCommandResult \<Rightarrow> string \<Rightarrow> compose_outcome"
  log_interaction :: "string \<Rightarrow> bool"

text \<open>
  The dictionaries that the agent returns: \<open>None\<close> is an absent key. The response composer
  writes the key \<open>follow_up_required\<close>; the workflow reads the key \<open>requires_follow_up\<close>.
\<close>

record agent_result =
  response :: "string option"
  agent_success :: bool
  requires_follow_up :: "bool option"
  follow_up_required_key :: "bool option"

text \<open>
  \<open>compose_final_response\<close> returns its dictionary, or the fallback dictionary of its own
  handler (\<open>ComposeFallback e\<close>, with \<open>e\<close> the text of the exception), or raises, when the
  handler's own logging does.
\<close>

definition compose_final_response ::
  "collaborators \<Rightarrow> ProcessedCommandResult \<Rightarrow> string \<Rightarrow> py_error + agent_result" where
  "compose_final_response env result original_text =
     (case compose env result original_text of
        Composed main_response \<Rightarrow>
          Inr \<lparr> response = Some main_response, agent_success = success result,
                requires_follow_up = None,
                follow_up_required_key = Some (follow_up_required result) \<rparr>
      | ComposeFallback e \<Rightarrow>
          Inr \<lparr> response = Some (''An error occurred while processing your request: '' @ e),
                agent_success = False, requires_follow_up = None,
                follow_up_required_key = Some False \<rparr>
      | ComposeRaises \<Rightarrow> Inl TypeError)"

text \<open>
  \<open>process_user_message\<close>. Whatever is raised inside its \<open>try\<close> reaches the handler,
  and the handler's \<open>logger.error(..., user_id=user_id, message=message)\<close> passes the
  parameter \<open>message\<close> of \<open>AIChatbotLogger.error\<close> twice: the handler raises
  \<open>TypeError\<close> before it returns its dictionary, and the function raises.
\<close>

definition process_user_message ::
  "collaborators \<Rightarrow> string \<Rightarrow> string \<Rightarrow> string \<Rightarrow> py_error + agent_result" where
  "process_user_message env msg uid auth_token =
     (case validate_and_process env msg of
        None \<Rightarrow> Inl TypeError
      | Some validation_result \<Rightarrow>
          if \<not> fst validation_result
          then Inr \<lparr> response = Some (snd validation_result), agent_success = False,
                     requires_follow_up = Some False, follow_up_required_key = None \<rparr>
          else (case get_user_info env auth_token of
                  None \<Rightarrow> Inl TypeError
                | Some authenticated \<Rightarrow>
                    if \<not> authenticated
                    then Inr \<lparr> response = Some ''You need to be authenticated to use this service.'',
                               agent_success = False, requires_follow_up = Some False,
                               follow_up_required_key = None \<rparr>
                    else (case nlp_process_input env msg uid of
                            None \<Rightarrow> Inl TypeError
                          | Some command \<Rightarrow>
                              (let command_validation = validate_command (validate_user_input env) command
                               in if \<not> is_valid command_validation
                                  then Inr \<lparr> response = Some (validation_message command_validation),
                                             agent_success = False,
                                             requires_follow_up =
                                               Some (case requires_confirmation command_validation of
                                                       Some b \<Rightarrow> b | None \<Rightarrow> False),
                                             follow_up_required_key = None \<rparr>
                                  else (case execute_command env command auth_token of
                                          None \<Rightarrow> Inl TypeError
                                        | Some result \<Rightarrow>
                                            (case (if task_result result \<noteq> None \<and> task_result result \<noteq> Some []
                                                   then check_safety env result else Some True) of
                                               None \<Rightarrow> Inl TypeError
                                             | Some safe \<Rightarrow>
                                                 if \<not> safe
                                                 then Inr \<lparr> response = Some ''The result of your request contains content that is not safe to display.'',
                                                            agent_success = False,
                                                            requires_follow_up = Some False,
                                                            follow_up_required_key = None \<rparr>
                                                 else (case compose_final_response env result msg of
                                                         Inl e \<Rightarrow> Inl TypeError
                                                       | Inr final_response \<Rightarrow>
                                                           if log_interaction env msg
                                                           then Inr final_response
                                                           else Inl TypeError)))))))"

text \<open>
  \<open>_handle_pending_action\<close> reads \<open>pending_action.get("data", {})\<close>; a stored pending
  action has no key \<open>data\<close>, so \<open>action_data.get("command")\<close> is \<open>None\<close> and a confirming
  answer falls through to the default at the end of the function.
\<close>

definition handle_pending_action ::
  "collaborators \<Rightarrow> PendingAction \<Rightarrow> string \<Rightarrow> string \<Rightarrow> string \<Rightarrow> py_error + agent_result" where
  "handle_pending_action env pending user_input uid auth_token =
     (let user_input_lower = lower user_input
      in if pending_type pending = ''confirmation_required''
            \<and> \<not> list_ex (\<lambda>conf_word. in_str conf_word user_input_lower)
                    [''yes'', ''y'', ''sure'', ''ok'', ''confirm'', ''affirmative'']
         then (if list_ex (\<lambda>deny_word. in_str deny_word user_input_lower)
                    [''no'', ''n'', ''cancel'', ''stop'', ''deny'']
               then Inr \<lparr> response = Some ''Action cancelled.'', agent_success = True,
                          requires_follow_up = Some False, follow_up_required_key = None \<rparr>
               else Inr \<lparr> response = Some ''Please confirm or deny the action.'',
                          agent_success = False,
                          requires_follow_up = Some True, follow_up_required_key = None \<rparr>)
         else process_user_message env user_input uid auth_token)"

text \<open>
  The handler of \<open>handle_conversation_step\<close> has the same call of \<open>logger.error\<close> with
  \<open>message=message\<close>: what is raised inside leaves the function as \<open>TypeError\<close>.
\<close>

definition handle_conversation_step ::
  "collaborators \<Rightarrow> string \<Rightarrow> string \<Rightarrow> string \<Rightarrow> PendingAction option \<Rightarrow> py_error + agent_result" where
  "handle_conversation_step env msg uid auth_token context_pending_action =
     (case (case context_pending_action of
              Some pending \<Rightarrow> handle_pending_action env pending msg uid auth_token
            | None \<Rightarrow> process_user_message env msg uid auth_token) of
        Inl e \<Rightarrow> Inl TypeError
      | Inr result \<Rightarrow> Inr result)"

section \<open>Chat workflow (orchestrator/workflow.py)\<close>

text \<open>
  Each operation maps the conversation store to the store it leaves behind, whether it
  returns a \<open>ChatResponse\<close> or raises: an exception inside the \<open>try\<close> of an operation
  ends the work on the store at that point, and what the handler then does (return an
  error response, or raise in its turn, as the handler of \<open>process_chat_message\<close> does
  with \<open>message=user_message\<close>) does not touch the store. Building the \<open>ChatResponse\<close>
  and logging come after the last write to the store and are left out. All readings of the
  clock within one operation are the one input \<open>now\<close>.
\<close>

definition dict_flag :: "bool option \<Rightarrow> bool" where
  "dict_flag v = (case v of Some b \<Rightarrow> b | None \<Rightarrow> False)"

definition process_chat_message ::
  "collaborators \<Rightarrow> datetime \<Rightarrow> string \<Rightarrow> string \<Rightarrow> string \<Rightarrow> string \<Rightarrow> string option
     \<Rightarrow> ConversationState \<Rightarrow> ConversationState" where
  "process_chat_message env now uuid4 user_message uid auth_token given_id mgr =
     (let (mgr1, cid) =
            (case given_id of
               None \<Rightarrow> create_conversation mgr now uuid4 uid
             | Some given \<Rightarrow>
                 if given = [] then create_conversation mgr now uuid4 uid
                 else (case get_conversation mgr now given of
                         (m, None) \<Rightarrow> create_conversation m now uuid4 uid
                       | (m, Some existing_conv) \<Rightarrow> (m, given)));
          mgr2 = add_message mgr1 now cid ''user'' user_message;
          pending = get_pending_action mgr2 cid
      in case (case pending of
                 Some p \<Rightarrow> handle_conversation_step env user_message uid auth_token (Some p)
               | None \<Rightarrow> process_user_message env user_message uid auth_token) of
           Inl e \<Rightarrow> mgr2
         | Inr result \<Rightarrow>
             (let response_text =
                    (case response result of
                       Some t \<Rightarrow> t
                     | None \<Rightarrow> ''I'' @ [CHR 0x27] @ ''m not sure how to respond to that.'')
              in if dict_flag (requires_follow_up result)
                 then add_message (update_conversation_state mgr2 now cid ''AWAITING_CLARIFICATION'')
                        now cid ''assistant'' response_text
                 else add_message (update_conversation_state mgr2 now cid ''ACTIVE'')
                        now cid ''assistant'' response_text))"

definition process_clarification_response ::
  "collaborators \<Rightarrow> datetime \<Rightarrow> string \<Rightarrow> string \<Rightarrow> string \<Rightarrow> string
     \<Rightarrow> ConversationState \<Rightarrow> ConversationState" where
  "process_clarification_response env now user_response uid auth_token cid mgr =
     (case get_conversation mgr now cid of
        (mgr1, None) \<Rightarrow> mgr1
      | (mgr1, Some conversation) \<Rightarrow>
          (case handle_conversation_step env user_response uid auth_token None of
             Inl e \<Rightarrow> mgr1
           | Inr result \<Rightarrow>
               (let response_text = (case response result of
                                       Some t \<Rightarrow> t | None \<Rightarrow> ''Thanks for the clarification.'');
                    mgr2 = add_message mgr1 now cid ''user'' user_response;
                    mgr3 = add_message mgr2 now cid ''assistant'' response_text;
                    mgr4 = update_conversation_state mgr3 now cid ''ACTIVE''
                in if \<not> dict_flag (requires_follow_up result)
                   then clear_pending_action mgr4 now cid else mgr4)))"

text \<open>
  \<open>action_data\<close> is the caller's dictionary: its \<open>action\<close>, \<open>None\<close> when the key is
  absent, and its \<open>details\<close>. \<open>None\<close> for \<open>action_data\<close> itself is an argument on which
  \<open>action_data.get\<close> raises, before anything is stored. Details that are not a dictionary
  make the test \<open>"task_title" in details\<close> raise, after the pending action and the state
  are stored and before the message is.
\<close>

definition confirmation_message :: "string option \<Rightarrow> dict \<Rightarrow> string" where
  "confirmation_message action details =
     ''Please confirm that you want to ''
     @ (case action of Some a \<Rightarrow> a | None \<Rightarrow> ''an action'')
     @ (case map_of details ''task_title'' of
          Some title \<Rightarrow> '' for task '' @ [CHR 0x27] @ title @ [CHR 0x27]
        | None \<Rightarrow> [])
     @ ''. Respond with '' @ [CHR 0x27] @ ''yes'' @ [CHR 0x27] @ '' to confirm or ''
     @ [CHR 0x27] @ ''no'' @ [CHR 0x27] @ '' to cancel.''"

definition start_confirmation_flow ::
  "datetime \<Rightarrow> (string option \<times> details_value) option \<Rightarrow> string \<Rightarrow> string
     \<Rightarrow> ConversationState \<Rightarrow> ConversationState" where
  "start_confirmation_flow now action_data uid cid mgr =
     (case action_data of
        None \<Rightarrow> mgr
      | Some (action, details) \<Rightarrow>
          (let confirmation_data =
                 \<lparr> pending_type = ''confirmation_required'', pending_action_name = action,
                   pending_details = details, pending_timestamp = now \<rparr>;
               mgr1 = set_pending_action mgr now cid confirmation_data;
               mgr2 = update_conversation_state mgr1 now cid ''CONFIRMATION_REQUIRED''
           in case details of
                NotADict \<Rightarrow> mgr2
              | NoDetails \<Rightarrow> add_message mgr2 now cid ''assistant'' (confirmation_message action [])
              | Details kvs \<Rightarrow> add_message mgr2 now cid ''assistant'' (confirmation_message action kvs)))"

definition handle_confirmation_response ::
  "collaborators \<Rightarrow> datetime \<Rightarrow> string \<Rightarrow> string \<Rightarrow> string \<Rightarrow> string \<Rightarrow> string
     \<Rightarrow> ConversationState \<Rightarrow> ConversationState" where
  "handle_confirmation_response env now uuid4 user_response uid auth_token cid mgr =
     (case get_pending_action mgr cid of
        None \<Rightarrow> process_chat_message env now uuid4 user_response uid auth_token (Some cid) mgr
      | Some pending \<Rightarrow>
          (let user_input_lower = strip (lower user_response);
               confirmed = list_ex (\<lambda>word. in_str word user_input_lower)
                             [''yes'', ''y'', ''confirm'', ''ok'', ''sure'', ''affirmative'', ''proceed''];
               denied = list_ex (\<lambda>word. in_str word user_input_lower)
                          [''no'', ''n'', ''deny'', ''cancel'', ''stop'', ''reject'']
           in if confirmed
              then (let response_text =
                          ''Confirmed. ''
                          @ (case pending_action_name pending of Some a \<Rightarrow> a | None \<Rightarrow> ''None'')
                          @ '' has been executed.'';
                        mgr1 = clear_pending_action mgr now cid;
                        mgr2 = update_conversation_state mgr1 now cid ''ACTIVE'';
                        mgr3 = add_message mgr2 now cid ''user'' user_response
                    in add_message mgr3 now cid ''assistant'' response_text)
              else if denied
              then (let mgr1 = clear_pending_action mgr now cid;
                        mgr2 = update_conversation_state mgr1 now cid ''ACTIVE'';
                        mgr3 = add_message mgr2 now cid ''user'' user_response
                    in add_message mgr3 now cid ''assistant'' ''Action cancelled as requested.'')
              else (let mgr1 = add_message mgr now cid ''user'' user_response
                    in add_message mgr1 now cid ''assistant''
                         (''I didn'' @ [CHR 0x27] @ ''t understand your response. Please respond with ''
                          @ [CHR 0x27] @ ''yes'' @ [CHR 0x27] @ '' to confirm or ''
                          @ [CHR 0x27] @ ''no'' @ [CHR 0x27] @ '' to cancel.''))))"

text \<open>The operations of the workflow, as a caller may issue them in any order.\<close>

datatype workflow_op =
    ProcessChatMessage collaborators datetime string string string string "string option"
  | ProcessClarificationResponse collaborators datetime string string string string
  | StartConfirmationFlow datetime "(string option \<times> details_value) option" string string
  | HandleConfirmationResponse collaborators datetime string string string string string

fun workflow_step :: "ConversationState \<Rightarrow> workflow_op \<Rightarrow> ConversationState" where
  "workflow_step mgr (ProcessChatMessage env now uuid4 msg uid tok cid) =
     process_chat_message env now uuid4 msg uid tok cid mgr"
| "workflow_step mgr (ProcessClarificationResponse env now msg uid tok cid) =
     process_clarification_response env now msg uid tok cid mgr"
| "workflow_step mgr (StartConfirmationFlow now action_data uid cid) =
     start_confirmation_flow now action_data uid cid mgr"
| "workflow_step mgr (HandleConfirmationResponse env now uuid4 msg uid tok cid) =
     handle_confirmation_response env now uuid4 msg uid tok cid mgr"

definition workflow_run :: "workflow_op list \<Rightarrow> ConversationState" where
  "workflow_run ops = foldl workflow_step ConversationState_init ops"

definition pending_consistent :: "ConversationState \<Rightarrow> bool" where
  "pending_consistent mgr \<longleftrightarrow>
     (\<forall>cid conv. conversations mgr cid = Some conv \<longrightarrow> pending_action conv = None
        \<longrightarrow> state conv = ''ACTIVE'')"

text \<open>Concrete inputs used to run the service.\<close>

definition example_command :: NaturalLanguageCommand where
  "example_command =
     \<lparr> raw_input = ''Delete all my tasks'', intent = DELETE_TASK, entities = [],
       confidence = 1 / 5, user_id = None, conversation_id = None, timestamp = None,
       suggestions = None \<rparr>"

definition example_service :: ConfirmationService where
  "example_service =
     fst (create_confirmation_request ConfirmationService_init 0 ''c1'' example_command
            ''delete all tasks'' DESTRUCTIVE_ACTION None)"

definition example_ops :: "service_op list" where
  "example_ops =
     [Create 0 ''c1'' example_command ''delete all tasks'' DESTRUCTIVE_ACTION None,
      Confirm 1000000 ''c1'',
      Reject 2000000 ''c1'']"

definition all_exclusive :: "ConfirmationService \<Rightarrow> bool" where
  "all_exclusive svc \<longleftrightarrow> list_all flags_exclusive (objects svc)"

text \<open>The statements of a compound utterance.\<close>

definition example_statements :: "string list" where
  "example_statements = [''Show my tasks'', ''delete the report task'']"

text \<open>
  A run of the workflow: a first message on which the quality guard raises, a second one
  that it turns down, the start of a confirmation, an answer that is neither yes nor no,
  and a confirming answer.
\<close>

definition example_collaborators :: collaborators where
  "example_collaborators =
     \<lparr> validate_and_process =
         (\<lambda>msg. if msg = ''x'' then None else Some (False, ''Your input is too short to process'')),
       get_user_info = (\<lambda>token. Some True),
       nlp_process_input = (\<lambda>msg uid. Some example_command),
       validate_user_input = (\<lambda>v. True),
       execute_command = (\<lambda>command token. None),
       check_safety = (\<lambda>result. Some True),
       compose = (\<lambda>result msg. Composed (result_message result)),
       log_interaction = (\<lambda>msg. True) \<rparr>"

definition example_workflow :: "workflow_op list" where
  "example_workflow =
     [ProcessChatMessage example_collaborators 0 ''conv-1'' ''x'' ''user-1'' ''token'' None,
      ProcessChatMessage example_collaborators 500000 ''conv-0'' ''a'' ''user-1'' ''token'' (Some ''conv-1''),
      StartConfirmationFlow 1000000 (Some (Some ''delete all tasks'', NoDetails)) ''user-1'' ''conv-1'',
      HandleConfirmationResponse example_collaborators 2000000 ''conv-2'' ''what?'' ''user-1'' ''token'' ''conv-1'',
      HandleConfirmationResponse example_collaborators 3000000 ''conv-3'' ''yes'' ''user-1'' ''token'' ''conv-1'']"

section \<open>Properties of the confirmation service\<close>

subsection \<open>References stay inside the object store\<close>

lemma create_wf:
  "service_wf svc \<Longrightarrow> service_wf (fst (create_confirmation_request svc now u c a ty cm))"
  by (auto simp: service_wf_def create_confirmation_request_def Let_def less_Suc_eq)

lemma confirm_wf: "service_wf svc \<Longrightarrow> service_wf (fst (confirm_action svc now cid))"
  by (auto simp: service_wf_def confirm_action_def split: option.splits)

lemma reject_wf: "service_wf svc \<Longrightarrow> service_wf (fst (reject_action svc now cid))"
  by (auto simp: service_wf_def reject_action_def split: option.splits if_splits)

lemma status_wf: "service_wf svc \<Longrightarrow> service_wf (fst (get_confirmation_status svc now cid))"
  by (auto simp: service_wf_def get_confirmation_status_def split: option.splits if_splits)

lemma process_wf: "service_wf svc \<Longrightarrow> service_wf (fst (process_confirmed_action svc now cid))"
  by (auto simp: service_wf_def process_confirmed_action_def get_confirmation_status_def Let_def
           split: option.splits if_splits prod.splits)

lemma cleanup_wf: "service_wf svc \<Longrightarrow> service_wf (cleanup_expired_confirmations svc now)"
  by (auto simp: service_wf_def cleanup_expired_confirmations_def split: option.splits if_splits)

lemma step_wf: "service_wf svc \<Longrightarrow> service_wf (service_step svc op)"
  by (cases op) (simp_all add: create_wf confirm_wf reject_wf status_wf process_wf cleanup_wf)

lemma run_wf: "service_wf (service_run ops)"
proof -
  have "service_wf svc \<Longrightarrow> service_wf (foldl service_step svc ops)" for svc
    by (induction ops arbitrary: svc) (simp_all add: step_wf)
  moreover have "service_wf ConfirmationService_init"
    by (simp add: service_wf_def ConfirmationService_init_def)
  ultimately show ?thesis by (simp add: service_run_def)
qed

subsection \<open>The two flags of a request\<close>

lemma update_exclusive:
  "all_exclusive svc \<Longrightarrow> flags_exclusive v \<Longrightarrow>
   all_exclusive (svc\<lparr> objects := (objects svc)[i := v] \<rparr>)"
  unfolding all_exclusive_def list_all_iff
  using set_update_subset_insert [of "objects svc" i v] by auto

lemma create_exclusive:
  "all_exclusive svc \<Longrightarrow> all_exclusive (fst (create_confirmation_request svc now u c a ty cm))"
  by (auto simp: all_exclusive_def create_confirmation_request_def Let_def flags_exclusive_def
                 ConfirmationRequest_init_def)

lemma confirm_exclusive: "all_exclusive svc \<Longrightarrow> all_exclusive (fst (confirm_action svc now cid))"
  by (auto simp: confirm_action_def flags_exclusive_def intro!: update_exclusive split: option.splits)

lemma reject_exclusive: "all_exclusive svc \<Longrightarrow> all_exclusive (fst (reject_action svc now cid))"
proof (cases "pending_confirmations svc cid")
  case None
  assume "all_exclusive svc"
  with None show ?thesis by (simp add: reject_action_def)
next
  case (Some ref)
  assume a: "all_exclusive svc"
  have "all_exclusive (svc\<lparr> objects := (objects svc)[ref := (objects svc ! ref)\<lparr> is_confirmed := False, is_rejected := True \<rparr>] \<rparr>)"
    using a by (rule update_exclusive) (simp add: flags_exclusive_def)
  then have "all_exclusive (svc\<lparr> objects := (objects svc)[ref := (objects svc ! ref)\<lparr> is_confirmed := False, is_rejected := True \<rparr>],
                      pending_confirmations := (pending_confirmations svc)(cid := None) \<rparr>)"
    by (simp add: all_exclusive_def)
  with a Some show ?thesis by (simp add: reject_action_def)
qed

lemma status_objects: "objects (fst (get_confirmation_status svc now cid)) = objects svc"
  by (auto simp: get_confirmation_status_def split: option.splits)

lemma process_objects: "objects (fst (process_confirmed_action svc now cid)) = objects svc"
  using status_objects [of svc now cid]
  by (auto simp: process_confirmed_action_def Let_def split: option.splits prod.splits)

lemma status_exclusive:
  "all_exclusive svc \<Longrightarrow> all_exclusive (fst (get_confirmation_status svc now cid))"
  by (simp add: all_exclusive_def status_objects)

lemma process_exclusive:
  "all_exclusive svc \<Longrightarrow> all_exclusive (fst (process_confirmed_action svc now cid))"
  by (simp add: all_exclusive_def process_objects)

lemma cleanup_exclusive:
  "all_exclusive svc \<Longrightarrow> all_exclusive (cleanup_expired_confirmations svc now)"
  by (simp add: all_exclusive_def cleanup_expired_confirmations_def)

lemma step_exclusive: "all_exclusive svc \<Longrightarrow> all_exclusive (service_step svc op)"
  by (cases op)
     (simp_all add: create_exclusive confirm_exclusive reject_exclusive status_exclusive
        process_exclusive cleanup_exclusive)

lemma foldl_exclusive: "all_exclusive svc \<Longrightarrow> all_exclusive (foldl service_step svc ops)"
  by (induction ops arbitrary: svc) (simp_all add: step_exclusive)

text \<open>
  C6. Whatever sequence of operations the service has run (create, confirm, reject, get
  status, process confirmed, and the sweep), no request object it ever constructed, whether
  still in the dictionary or already deleted from it, has \<open>is_confirmed\<close> and
  \<open>is_rejected\<close> both true.
\<close>

theorem flags_never_both:
  "r \<in> set (objects (service_run ops)) \<Longrightarrow> \<not> (is_confirmed r \<and> is_rejected r)"
proof -
  assume r: "r \<in> set (objects (service_run ops))"
  have "all_exclusive ConfirmationService_init"
    by (simp add: all_exclusive_def ConfirmationService_init_def)
  then have "all_exclusive (service_run ops)"
    unfolding service_run_def by (rule foldl_exclusive)
  with r show ?thesis by (simp add: all_exclusive_def flags_exclusive_def list_all_iff)
qed

lemma example_run_objects: "length (objects (service_run example_ops)) = 1"
  by (simp add: example_ops_def service_run_def ConfirmationService_init_def
        create_confirmation_request_def confirm_action_def reject_action_def is_expired_def
        ConfirmationRequest_init_def timedelta_minutes_def Let_def)

theorem flags_never_both_witness:
  "objects (service_run example_ops) ! 0 \<in> set (objects (service_run example_ops))
   \<and> \<not> (is_confirmed (objects (service_run example_ops) ! 0)
        \<and> is_rejected (objects (service_run example_ops) ! 0))"
proof -
  have m: "objects (service_run example_ops) ! 0 \<in> set (objects (service_run example_ops))"
    using example_run_objects by simp
  from flags_never_both [OF m] m show ?thesis by simp
qed

text \<open>
  C4. The lifecycle of one request, created at \<open>t0\<close> under the identifier \<open>cid\<close> in any
  service state: it is not expired when created; at any time \<open>t\<close> after its expiry
  \<open>confirm_action\<close> fails and \<open>get_confirmation_status\<close> finds nothing; confirmed at
  \<open>t1\<close> and processed at \<open>t2\<close>, both within its lifetime, the confirmation succeeds, the
  first \<open>process_confirmed_action\<close> returns a successful result and deletes the entry, and
  a second one, at any time \<open>t3\<close>, returns nothing.
\<close>

theorem confirmation_lifecycle:
  "t1 \<le> t0 + timedelta_minutes 5 \<Longrightarrow> t2 \<le> t0 + timedelta_minutes 5 \<Longrightarrow>
   t0 + timedelta_minutes 5 < t \<Longrightarrow>
   (let (svc1, ref) = create_confirmation_request svc t0 cid command action ctype custom;
        (svc2, ok) = confirm_action svc1 t1 cid;
        (svc3, res1) = process_confirmed_action svc2 t2 cid;
        (svc4, res2) = process_confirmed_action svc3 t3 cid
    in \<not> is_expired t0 (objects svc1 ! ref)
       \<and> snd (confirm_action svc1 t cid) = False
       \<and> snd (get_confirmation_status svc1 t cid) = None
       \<and> ok
       \<and> (\<exists>r. res1 = Some r \<and> success r)
       \<and> pending_confirmations svc3 cid = None
       \<and> res2 = None)"
  by (auto simp: create_confirmation_request_def confirm_action_def process_confirmed_action_def
        get_confirmation_status_def is_expired_def ConfirmationRequest_init_def
        timedelta_minutes_def Let_def
        split: prod.splits option.splits if_splits)

theorem confirmation_lifecycle_witness:
  "(1000000 :: int) \<le> 0 + timedelta_minutes 5 \<and> (2000000 :: int) \<le> 0 + timedelta_minutes 5
   \<and> 0 + timedelta_minutes 5 < (300000001 :: int)
   \<and> (let (svc1, ref) = create_confirmation_request ConfirmationService_init 0 ''c1''
                           example_command ''delete all tasks'' DESTRUCTIVE_ACTION None;
           (svc2, ok) = confirm_action svc1 1000000 ''c1'';
           (svc3, res1) = process_confirmed_action svc2 2000000 ''c1'';
           (svc4, res2) = process_confirmed_action svc3 3000000 ''c1''
       in \<not> is_expired 0 (objects svc1 ! ref)
          \<and> snd (confirm_action svc1 300000001 ''c1'') = False
          \<and> snd (get_confirmation_status svc1 300000001 ''c1'') = None
          \<and> ok
          \<and> (\<exists>r. res1 = Some r \<and> success r)
          \<and> pending_confirmations svc3 ''c1'' = None
          \<and> res2 = None)"
proof -
  have h: "(1000000 :: int) \<le> 0 + timedelta_minutes 5" "(2000000 :: int) \<le> 0 + timedelta_minutes 5"
    "0 + timedelta_minutes 5 < (300000001 :: int)"
    by (simp_all add: timedelta_minutes_def)
  from confirmation_lifecycle [OF h, of ConfirmationService_init "''c1''" example_command
      "''delete all tasks''" DESTRUCTIVE_ACTION None 3000000] h
  show ?thesis by simp
qed

text \<open>
  C5, as the code has it. On an expired record each of the four lookups reports failure
  and leaves the request object as it was: \<open>get_confirmation_status\<close> and
  \<open>process_confirmed_action\<close> delete the dictionary entry, \<open>confirm_action\<close> and
  \<open>reject_action\<close> return the service unchanged, entry included.
\<close>

theorem expired_lookup:
  "pending_confirmations svc cid = Some ref \<Longrightarrow> is_expired now (objects svc ! ref) \<Longrightarrow>
     confirm_action svc now cid = (svc, False)
   \<and> reject_action svc now cid = (svc, False)
   \<and> get_confirmation_status svc now cid
       = (svc\<lparr> pending_confirmations := (pending_confirmations svc)(cid := None) \<rparr>, None)
   \<and> process_confirmed_action svc now cid
       = (svc\<lparr> pending_confirmations := (pending_confirmations svc)(cid := None) \<rparr>, None)"
  by (simp add: confirm_action_def reject_action_def get_confirmation_status_def
        process_confirmed_action_def)

lemma example_service_eval:
  "pending_confirmations example_service ''c1'' = Some 0"
  "is_expired 300000001 (objects example_service ! 0)"
  by (simp_all add: example_service_def ConfirmationService_init_def
        create_confirmation_request_def is_expired_def ConfirmationRequest_init_def
        timedelta_minutes_def Let_def)

theorem expired_lookup_witness:
  "pending_confirmations example_service ''c1'' = Some 0
   \<and> is_expired 300000001 (objects example_service ! 0)
   \<and> confirm_action example_service 300000001 ''c1'' = (example_service, False)
   \<and> reject_action example_service 300000001 ''c1'' = (example_service, False)
   \<and> snd (get_confirmation_status example_service 300000001 ''c1'') = None
   \<and> snd (process_confirmed_action example_service 300000001 ''c1'') = None"
  using expired_lookup [OF example_service_eval] example_service_eval by simp

text \<open>
  C5, as stated, fails: the request \<open>c1\<close> created at time 0 is expired at 300000001
  microseconds, \<open>confirm_action\<close> and \<open>reject_action\<close> fail on it, and after either call the
  dictionary still holds the entry.
\<close>

theorem expired_confirm_keeps_record:
  "is_expired 300000001 (objects example_service ! 0)
   \<and> snd (confirm_action example_service 300000001 ''c1'') = False
   \<and> pending_confirmations (fst (confirm_action example_service 300000001 ''c1'')) ''c1'' = Some 0
   \<and> snd (reject_action example_service 300000001 ''c1'') = False
   \<and> pending_confirmations (fst (reject_action example_service 300000001 ''c1'')) ''c1'' = Some 0"
  by (simp add: example_service_def ConfirmationService_init_def
        create_confirmation_request_def is_expired_def ConfirmationRequest_init_def
        confirm_action_def reject_action_def timedelta_minutes_def Let_def)

section \<open>Properties of the intent classifier\<close>

lemma foldl_best_ok: "best_ok t tbl (foldl (classify_step t) (UNKNOWN, 0) tbl)"
proof (induction tbl rule: rev_induct)
  case Nil
  show ?case by (simp add: best_ok_def)
next
  case (snoc e tbl)
  then show ?case
    by (cases e) (auto simp: best_ok_def classify_step_def Let_def list_all_iff list_ex_iff)
qed

lemma distinct_keys: "distinct (map fst intent_patterns)"
  by (simp add: intent_patterns_def)

lemma score_entry:
  "(i, ps) \<in> set intent_patterns \<Longrightarrow> intent_score i txt = matched_count ps (strip (lower txt))"
  using distinct_keys by (simp add: intent_score_def patterns_for_def)

lemma score_cases:
  "intent_score j txt = 0
   \<or> (\<exists>ps. (j, ps) \<in> set intent_patterns \<and> intent_score j txt = matched_count ps (strip (lower txt)))"
  by (auto simp: intent_score_def patterns_for_def matched_count_def
           split: option.splits dest: map_of_SomeD)

lemma all_intents_complete: "i \<in> set all_intents"
  by (cases i) (simp_all add: all_intents_def)

lemma find_mem: "find P xs = Some x \<Longrightarrow> x \<in> set xs"
  by (induction xs) (auto split: if_splits)

text \<open>
  The rule-based path always returns. With no pattern matched it returns UNKNOWN with
  confidence 0; otherwise the winner has the highest count and its confidence is that
  count over the number of its patterns, capped at 1.
\<close>

lemma rule_based_classify_result:
  "\<exists>i c. rule_based_classify txt = Inr (i, c) \<and> 0 \<le> c \<and> c \<le> 1
     \<and> (if \<forall>j. intent_score j txt = 0 then i = UNKNOWN \<and> c = 0
         else c = min (of_nat (intent_score i txt) / of_nat (length (patterns_for i))) 1
              \<and> (\<forall>j. intent_score j txt \<le> intent_score i txt))"
proof -
  define t where "t = strip (lower txt)"
  obtain bi bs where b: "foldl (classify_step t) (UNKNOWN, 0) intent_patterns = (bi, bs)"
    by (cases "foldl (classify_step t) (UNKNOWN, 0) intent_patterns")
  have ok: "best_ok t intent_patterns (bi, bs)"
    using foldl_best_ok [of t intent_patterns] b by simp
  show ?thesis
  proof (cases "bs = 0")
    case True
    with ok have z: "\<forall>e \<in> set intent_patterns. matched_count (snd e) t = 0" and u: "bi = UNKNOWN"
      by (auto simp: best_ok_def list_all_iff)
    have "intent_score j txt = 0" for j
      using score_cases [of j "txt"] z by (auto simp: t_def)
    moreover have "rule_based_classify txt = Inr (UNKNOWN, 0)"
      using b True u by (simp add: rule_based_classify_def t_def [symmetric])
    ultimately show ?thesis by simp
  next
    case False
    with ok obtain ps where ps: "(bi, ps) \<in> set intent_patterns" "matched_count ps t = bs"
      and le: "\<forall>e \<in> set intent_patterns. matched_count (snd e) t \<le> bs"
      by (auto simp: best_ok_def list_all_iff list_ex_iff)
    have m: "map_of intent_patterns bi = Some ps"
      using ps(1) distinct_keys by simp
    have sc: "intent_score bi txt = bs"
      using score_entry [OF ps(1), of "txt"] ps(2) by (simp add: t_def)
    have pf: "patterns_for bi = ps" using m by (simp add: patterns_for_def)
    have r: "rule_based_classify txt = Inr (bi, min (of_nat bs / of_nat (length ps)) 1)"
      using b False m by (simp add: rule_based_classify_def t_def [symmetric])
    have all: "intent_score j txt \<le> bs" for j
      using score_cases [of j "txt"] le by (auto simp: t_def)
    have nz: "\<not> (\<forall>j. intent_score j txt = 0)"
      using sc False by auto
    have "(0::rat) \<le> min (of_nat bs / of_nat (length ps)) 1"
      by simp
    with r sc pf all nz show ?thesis by auto
  qed
qed

lemma classify_intent_result:
  "\<exists>i c. classify_intent client txt = Inr (i, c) \<and> 0 \<le> c \<and> c \<le> 1 \<and> i \<in> set all_intents"
proof -
  from rule_based_classify_result [of "txt"] obtain i c where
    rb: "rule_based_classify txt = Inr (i, c)" "0 \<le> c" "c \<le> 1"
    by blast
  note rb = rb all_intents_complete [of i]
  show ?thesis
  proof (cases client)
    case None
    with rb show ?thesis by (simp add: classify_intent_def)
  next
    case (Some cohere)
    show ?thesis
    proof (cases "cohere txt possible_intents")
      case Raises
      with Some rb show ?thesis by (simp add: classify_intent_def)
    next
      case (Returns label)
      show ?thesis
      proof (cases "find (\<lambda>intent_type. intent_value intent_type = label) all_intents")
        case None
        with Some Returns rb show ?thesis by (simp add: classify_intent_def)
      next
        case (Some it)
        have "classify_intent client txt = Inr (it, 8 / 10)"
          using \<open>client = Some cohere\<close> Returns Some by (simp add: classify_intent_def)
        moreover have "(0::rat) \<le> 8 / 10" "(8::rat) / 10 \<le> 1" by simp_all
        ultimately show ?thesis using find_mem [OF Some] by blast
      qed
    qed
  qed
qed

text \<open>
  C8. For every text and every behaviour of the external classifier, \<open>classify_intent\<close>
  returns an intent of the enumeration with a confidence between 0 and 1. On the
  rule-based path, when no pattern matches the result is UNKNOWN with confidence 0, and
  otherwise the confidence is the number of matched patterns of the winning intent over the
  number of its patterns, capped at 1.
\<close>

theorem classify_confidence:
  "(\<exists>i c. classify_intent client txt = Inr (i, c) \<and> 0 \<le> c \<and> c \<le> 1 \<and> i \<in> set all_intents)
   \<and> (\<exists>i c. rule_based_classify txt = Inr (i, c)
         \<and> (if \<forall>j. intent_score j txt = 0 then i = UNKNOWN \<and> c = 0
             else c = min (of_nat (intent_score i txt) / of_nat (length (patterns_for i))) 1
                  \<and> (\<forall>j. intent_score j txt \<le> intent_score i txt)))"
  using classify_intent_result [of client "txt"] rule_based_classify_result [of "txt"] by blast

lemma show_my_tasks_lower: "strip (lower ''Show my tasks'') = ''show my tasks''"
  by (simp add: lower_def lower_char_def strip_def isspace_def)

lemma show_my_tasks_best:
  "foldl (classify_step ''show my tasks'') (UNKNOWN, 0) intent_patterns = (LIST_TASKS, 1)"
  by (simp add: intent_patterns_def classify_step_def matched_count_def)

lemma show_my_tasks_classify: "rule_based_classify ''Show my tasks'' = Inr (LIST_TASKS, 1 / 7)"
  by (simp add: rule_based_classify_def show_my_tasks_lower show_my_tasks_best)
     (simp add: intent_patterns_def)

lemma show_my_tasks_score: "intent_score LIST_TASKS ''Show my tasks'' = 1"
  by (simp add: intent_score_def show_my_tasks_lower patterns_for_def)
     (simp add: intent_patterns_def matched_count_def)

theorem classify_confidence_witness:
  "classify_intent None ''Show my tasks'' = Inr (LIST_TASKS, 1 / 7)
   \<and> \<not> (\<forall>j. intent_score j ''Show my tasks'' = 0)
   \<and> (1 / 7 :: rat) = min (of_nat (intent_score LIST_TASKS ''Show my tasks'')
                            / of_nat (length (patterns_for LIST_TASKS))) 1
   \<and> (\<forall>j. intent_score j ''Show my tasks'' \<le> intent_score LIST_TASKS ''Show my tasks'')"
proof -
  have nz: "\<not> (\<forall>j. intent_score j ''Show my tasks'' = 0)"
    using show_my_tasks_score by (metis zero_neq_one)
  from classify_confidence [of None "''Show my tasks''"] nz show_my_tasks_classify
  show ?thesis by (simp add: classify_intent_def)
qed

section \<open>Properties of the quality validator\<close>

text \<open>
  C10 fails on the code. On a command as the constructor builds it, the field \<open>intent\<close>
  is a plain string and the first statement of \<open>validate_task_operation\<close>, which reads
  \<open>command.intent.value\<close>, raises \<open>AttributeError\<close>. On a CREATE\_TASK command that
  holds the enumeration member, the branch for destructive intents is not taken, the local
  variable \<open>entities\<close> is never assigned, and the test
  \<open>not entities.get('task_title')\<close> raises \<open>UnboundLocalError\<close>.
\<close>

theorem validate_create_raises:
  "validate_task_operation create_command = Inl AttributeError
   \<and> validate_task_operation_on (AsMember CREATE_TASK) create_command = Inl UnboundLocalError"
  by (simp add: validate_task_operation_def validate_task_operation_on_def constructed_def
        create_check_def create_command_def)

section \<open>The end-to-end scenarios\<close>

lemma delete_all_classify: "rule_based_classify ''Delete all my tasks'' = Inr (DELETE_TASK, 1 / 5)"
  by code_simp

lemma delete_all_extract: "rule_based_extract ''Delete all my tasks'' = []"
  by code_simp

lemma delete_all_command_eval:
  "delete_all_command =
     \<lparr> raw_input = ''Delete all my tasks'', intent = DELETE_TASK, entities = [],
       confidence = 1 / 5, user_id = None, conversation_id = None, timestamp = None,
       suggestions = None \<rparr>"
  by (simp add: delete_all_command_def process_input_def classify_intent_def
        extract_entities_def delete_all_classify delete_all_extract)

lemma delete_all_lower: "lower ''Delete all my tasks'' = ''delete all my tasks''"
  by (simp add: lower_def lower_char_def)

text \<open>
  C1 fails on the code. For \<open>Delete all my tasks\<close>, classified DELETE\_TASK, the
  function does not return a result that asks for confirmation. On the command as the
  constructor builds it, it raises \<open>AttributeError\<close> at its first statement. On the same
  command holding the enumeration member, it returns a valid result that asks for no
  confirmation: the rule-based extractor finds no entity in the text, so neither
  \<open>search_term\<close> nor \<open>task_title\<close> is one of the bulk deletion terms, and the text
  contains none of \<open>delete everything\<close>, \<open>remove all\<close>, \<open>clear all\<close>.
\<close>

theorem delete_all_not_confirmed:
  "intent delete_all_command = DELETE_TASK
   \<and> validate_task_operation delete_all_command = Inl AttributeError
   \<and> validate_task_operation_on (AsMember DELETE_TASK) delete_all_command =
       Inr \<lparr> is_valid = True, requires_confirmation = Some False,
             validation_message = ''Task operation is valid'',
             reason = None, confirmation_reason = None \<rparr>"
  by (simp add: delete_all_command_eval validate_task_operation_def validate_task_operation_on_def
        constructed_def delete_check_def update_check_def create_check_def dict_get_def
        delete_all_lower lower_def)

lemma find_project_classify:
  "rule_based_classify ''Find tasks with project in the title'' = Inr (SEARCH_TASKS, 1 / 5)"
  by code_simp

lemma find_project_extract:
  "rule_based_extract ''Find tasks with project in the title'' =
     [(''search_term'', ''project in the title''), (''task_title'', ''project in the title'')]"
  by code_simp

text \<open>
  C9, as the code has it. The utterance is classified SEARCH\_TASKS (one of the five
  patterns of that intent occurs in it), and the first search pattern captures everything
  after \<open>with\<close> up to the end of the sentence: \<open>search_term\<close> is
  \<open>project in the title\<close>, and \<open>task_title\<close> is filled in with the same text.
\<close>

theorem find_project_entities:
  "intent find_project_command = SEARCH_TASKS
   \<and> confidence find_project_command = 1 / 5
   \<and> entities find_project_command =
       [(''search_term'', ''project in the title''), (''task_title'', ''project in the title'')]
   \<and> dict_lookup (entities find_project_command) ''search_term'' = Some ''project in the title''"
  by (simp add: find_project_command_def process_input_def classify_intent_def
        extract_entities_def find_project_classify find_project_extract dict_lookup_def)

text \<open>C9, as stated, fails: the extracted \<open>search_term\<close> is not \<open>project\<close>.\<close>

theorem find_project_search_term_differs:
  "dict_lookup (rule_based_extract ''Find tasks with project in the title'') ''search_term''
     \<noteq> Some ''project''"
  by (simp add: find_project_extract dict_lookup_def)

section \<open>Properties of the multi-intent decomposer\<close>










lemma separate_Nil: "separate r [] = []"
  by (simp add: separate_def)


lemma foldl_separate_Nil: "foldl (\<lambda>parts r. separate r parts) [] ps = []"
  by (induction ps) (simp_all add: separate_Nil)











section \<open>Properties of the hierarchical strategy\<close>

lemma sort_tasks_undeclared: "IntentType_attribute ''SORT_TASKS'' = Inl AttributeError"
  by (simp add: IntentType_attribute_def all_intents_def)

lemma declared_members:
  "IntentType_attribute ''UNKNOWN'' = Inr UNKNOWN"
  "IntentType_attribute ''LIST_TASKS'' = Inr LIST_TASKS"
  "IntentType_attribute ''SEARCH_TASKS'' = Inr SEARCH_TASKS"
  "IntentType_attribute ''FILTER_TASKS'' = Inr FILTER_TASKS"
  by (simp_all add: IntentType_attribute_def all_intents_def)

text \<open>
  C2 fails on the code. Nothing is classified, sorted or executed under the hierarchical
  strategy: the constructor of the processor raises \<open>AttributeError\<close> when it reads
  \<open>IntentType.SORT_TASKS\<close> for the priority table, and on any processor
  \<open>_process_hierarchically\<close> raises \<open>AttributeError\<close> at the first statement, where it
  reads \<open>nlp_intent_agent.classify_intent\<close>.
\<close>

theorem hierarchical_raises:
  "MultiIntentProcessor_init = Inl AttributeError
   \<and> process_hierarchically self input_ok example_statements ''user-1'' ''token''
       = Inl AttributeError"
  by (simp add: MultiIntentProcessor_init_def intent_priority_display_def declared_members
        sort_tasks_undeclared process_hierarchically_def nlp_intent_agent_classify_intent_def
        example_statements_def)

section \<open>Properties of the chat workflow\<close>

text \<open>
  With no pending action the workflow asks \<open>process_user_message\<close>, and none of the
  dictionaries that it returns has a true \<open>requires_follow_up\<close>.
\<close>

lemma no_follow_up:
  "process_user_message env m u t = Inr result \<Longrightarrow> dict_flag (requires_follow_up result) = False"
  by (auto simp: process_user_message_def compose_final_response_def validate_command_def
        dict_flag_def Let_def split: option.splits if_splits compose_outcome.splits sum.splits)

lemma inv_create:
  "pending_consistent mgr \<Longrightarrow> pending_consistent (fst (create_conversation mgr now u uid))"
  by (auto simp: pending_consistent_def create_conversation_def)

lemma inv_get:
  "pending_consistent mgr \<Longrightarrow> pending_consistent (fst (get_conversation mgr now cid))"
  by (auto simp: pending_consistent_def get_conversation_def end_conversation_def
           split: option.splits if_splits)

lemma inv_add_message:
  "pending_consistent mgr \<Longrightarrow> pending_consistent (add_message mgr now cid role content)"
  by (auto simp: pending_consistent_def add_message_def split: option.splits if_splits)

lemma pending_add_message:
  "get_pending_action (add_message mgr now cid role content) c = get_pending_action mgr c"
  by (auto simp: get_pending_action_def add_message_def split: option.splits)

lemma inv_update_active:
  "pending_consistent mgr \<Longrightarrow> pending_consistent (update_conversation_state mgr now cid ''ACTIVE'')"
  by (auto simp: pending_consistent_def update_conversation_state_def split: option.splits if_splits)

lemma inv_update_pending:
  "pending_consistent mgr \<Longrightarrow> get_pending_action mgr cid \<noteq> None \<Longrightarrow>
   pending_consistent (update_conversation_state mgr now cid st)"
  by (auto simp: pending_consistent_def update_conversation_state_def get_pending_action_def
           split: option.splits if_splits)

lemma inv_clear_active:
  "pending_consistent mgr \<Longrightarrow>
   pending_consistent (update_conversation_state (clear_pending_action mgr now cid) now' cid ''ACTIVE'')"
  by (auto simp: pending_consistent_def update_conversation_state_def clear_pending_action_def
           split: option.splits if_splits)

lemma inv_set_update:
  "pending_consistent mgr \<Longrightarrow>
   pending_consistent (update_conversation_state (set_pending_action mgr now cid a) now' cid st)"
  by (auto simp: pending_consistent_def update_conversation_state_def set_pending_action_def
           split: option.splits if_splits)

lemma inv_active_added:
  "pending_consistent mgr \<Longrightarrow>
   pending_consistent
     (update_conversation_state (add_message (add_message mgr now cid r c) now cid r' c')
        now cid ''ACTIVE'')"
  by (intro inv_update_active inv_add_message)

lemma clear_add_active:
  "pending_consistent mgr \<Longrightarrow>
   pending_consistent (clear_pending_action
      (update_conversation_state (add_message (add_message mgr now cid r c) now cid r' c')
         now cid ''ACTIVE'') now cid)"
  by (auto simp: pending_consistent_def update_conversation_state_def clear_pending_action_def
        add_message_def split: option.splits if_splits)

text \<open>
  The part of \<open>process_chat_message\<close> after the conversation is found or created: the
  store it leaves is consistent whether the agent returns or raises.
\<close>

lemma inv_chat_tail:
  assumes "pending_consistent mgr1"
  shows "pending_consistent
    (let mgr2 = add_message mgr1 now cid ''user'' user_message;
          pending = get_pending_action mgr2 cid
      in case (case pending of
                 Some p \<Rightarrow> handle_conversation_step env user_message uid auth_token (Some p)
               | None \<Rightarrow> process_user_message env user_message uid auth_token) of
           Inl e \<Rightarrow> mgr2
         | Inr result \<Rightarrow>
             (let response_text =
                    (case response result of
                       Some t \<Rightarrow> t
                     | None \<Rightarrow> ''I'' @ [CHR 0x27] @ ''m not sure how to respond to that.'')
              in if dict_flag (requires_follow_up result)
                 then add_message (update_conversation_state mgr2 now cid ''AWAITING_CLARIFICATION'')
                        now cid ''assistant'' response_text
                 else add_message (update_conversation_state mgr2 now cid ''ACTIVE'')
                        now cid ''assistant'' response_text))"
proof (cases "get_pending_action mgr1 cid")
  case None
  show ?thesis
  proof (cases "process_user_message env user_message uid auth_token")
    case (Inl e)
    with None assms show ?thesis
      by (simp add: Let_def pending_add_message inv_add_message)
  next
    case (Inr result)
    with None assms no_follow_up [OF Inr] show ?thesis
      by (simp add: Let_def pending_add_message inv_add_message inv_update_active)
  qed
next
  case (Some p)
  have u: "pending_consistent
          (update_conversation_state (add_message mgr1 now cid ''user'' user_message) now cid st)" for st
    using assms Some by (intro inv_update_pending inv_add_message) (simp_all add: pending_add_message)
  show ?thesis
  proof (cases "handle_conversation_step env user_message uid auth_token (Some p)")
    case (Inl e)
    with Some assms show ?thesis
      by (simp add: Let_def pending_add_message inv_add_message)
  next
    case (Inr result)
    with Some u show ?thesis
      by (simp add: Let_def pending_add_message inv_add_message)
  qed
qed

lemma inv_process_chat_message:
  assumes "pending_consistent mgr"
  shows "pending_consistent (process_chat_message env now uuid4 msg uid tok given mgr)"
proof -
  obtain mgr1 cid where c:
    "(case given of
               None \<Rightarrow> create_conversation mgr now uuid4 uid
             | Some given \<Rightarrow>
                 if given = [] then create_conversation mgr now uuid4 uid
                 else (case get_conversation mgr now given of
                         (m, None) \<Rightarrow> create_conversation m now uuid4 uid
                       | (m, Some existing_conv) \<Rightarrow> (m, given))) = (mgr1, cid)"
    by fastforce
  have cr: "pending_consistent m \<Longrightarrow> create_conversation m now uuid4 uid = (mgr1, cid)
              \<Longrightarrow> pending_consistent mgr1" for m
    using inv_create [of m now uuid4 uid] by simp
  have ge: "get_conversation mgr now g = (m, found) \<Longrightarrow> pending_consistent m" for g m found
    using inv_get [OF assms, of now g] by simp
  have "pending_consistent mgr1"
    using c assms by (auto split: option.splits prod.splits if_splits intro: cr dest: ge)
  from inv_chat_tail [OF this] show ?thesis
    unfolding process_chat_message_def c by simp
qed

lemma inv_process_clarification_response:
  assumes "pending_consistent mgr"
  shows "pending_consistent (process_clarification_response env now msg uid tok cid mgr)"
proof (cases "get_conversation mgr now cid")
  case (Pair mgr1 found)
  have m1: "pending_consistent mgr1"
    using inv_get [OF assms, of now cid] Pair by simp
  show ?thesis
  proof (cases found)
    case None
    with Pair m1 show ?thesis by (simp add: process_clarification_response_def)
  next
    case (Some conversation)
    show ?thesis
    proof (cases "handle_conversation_step env msg uid tok None")
      case (Inl e)
      with Pair Some m1 show ?thesis by (simp add: process_clarification_response_def)
    next
      case (Inr result)
      with Pair Some m1 show ?thesis
        by (simp add: process_clarification_response_def Let_def clear_add_active
              inv_active_added)
    qed
  qed
qed

lemma inv_start_confirmation_flow:
  "pending_consistent mgr \<Longrightarrow>
   pending_consistent (start_confirmation_flow now action_data uid cid mgr)"
  by (auto simp: start_confirmation_flow_def Let_def inv_add_message inv_set_update
           split: option.splits details_value.splits)

lemma inv_handle_confirmation_response:
  "pending_consistent mgr \<Longrightarrow>
   pending_consistent (handle_confirmation_response env now uuid4 msg uid tok cid mgr)"
  by (simp add: handle_confirmation_response_def Let_def inv_process_chat_message inv_add_message
        inv_clear_active split: option.splits)

lemma inv_step: "pending_consistent mgr \<Longrightarrow> pending_consistent (workflow_step mgr op)"
  by (cases op)
     (simp_all add: inv_process_chat_message inv_process_clarification_response
        inv_start_confirmation_flow inv_handle_confirmation_response)

lemma inv_run: "pending_consistent (workflow_run ops)"
proof -
  have "pending_consistent mgr \<Longrightarrow> pending_consistent (foldl workflow_step mgr ops)" for mgr
    by (induction ops arbitrary: mgr) (simp_all add: inv_step)
  moreover have "pending_consistent ConversationState_init"
    by (simp add: pending_consistent_def ConversationState_init_def)
  ultimately show ?thesis by (simp add: workflow_run_def)
qed

text \<open>
  C3. After any sequence of the four operations of the workflow, each run to its return
  or to the exception that ends it, and with any behaviour of the agent's collaborators, a
  stored conversation whose pending action is \<open>None\<close> has the state ACTIVE. The pending
  action is one field of the conversation, so a conversation never holds more than one.
\<close>

theorem pending_none_active:
  "conversations (workflow_run ops) cid = Some conv \<Longrightarrow>
   (pending_action conv = None \<longrightarrow> state conv = ''ACTIVE'')
   \<and> card (set_option (pending_action conv)) \<le> 1"
proof -
  assume c: "conversations (workflow_run ops) cid = Some conv"
  have "card (set_option (pending_action conv)) \<le> 1"
    by (cases "pending_action conv") simp_all
  with c inv_run [of ops] show ?thesis by (simp add: pending_consistent_def)
qed

lemma example_workflow_eval:
  "\<exists>conv. conversations (workflow_run example_workflow) ''conv-1'' = Some conv
          \<and> pending_action conv = None \<and> length (messages conv) = 8"
  by (simp add: workflow_run_def example_workflow_def ConversationState_init_def
        process_chat_message_def create_conversation_def add_message_def get_pending_action_def
        get_conversation_def timedelta_hours_def
        process_user_message_def example_collaborators_def dict_flag_def
        update_conversation_state_def start_confirmation_flow_def set_pending_action_def
        handle_confirmation_response_def clear_pending_action_def Let_def
        lower_def lower_char_def strip_def isspace_def)

theorem pending_none_active_witness:
  "\<exists>conv. conversations (workflow_run example_workflow) ''conv-1'' = Some conv
          \<and> pending_action conv = None \<and> state conv = ''ACTIVE''
          \<and> card (set_option (pending_action conv)) \<le> 1"
proof -
  from example_workflow_eval obtain conv where
    c: "conversations (workflow_run example_workflow) ''conv-1'' = Some conv"
    and p: "pending_action conv = None"
    by blast
  from pending_none_active [OF c] p c show ?thesis by blast
qed

end
